theory Spec2Isabelle
  imports Complex_Main
begin

section \<open>Values crossing the HTTP boundary\<close>

text \<open>
  Request bodies, agent payloads and session contexts are JSON values. A JavaScript
  \<^verbatim>\<open>number\<close> is modelled by a real; \<open>JNonFinite\<close> stands for the numbers that
  \<^verbatim>\<open>Number.isFinite\<close> rejects. An object is its list of key/value pairs; a property
  that is absent reads as \<open>None\<close> (\<^verbatim>\<open>undefined\<close>).
\<close>

datatype jval =
    JNull
  | JBool bool
  | JNum real
  | JNonFinite
  | JStr string
  | JArr "jval list"
  | JObj "(string \<times> jval) list"

definition getProp :: "string \<Rightarrow> jval \<Rightarrow> jval option" where
  \<comment> \<open>\<^verbatim>\<open>value?.key\<close>: only an object carries the properties read here.\<close>
  "getProp k v = (case v of JObj kvs \<Rightarrow> map_of kvs k | _ \<Rightarrow> None)"

definition asString :: "jval option \<Rightarrow> string option" where
  \<comment> \<open>\<^verbatim>\<open>typeof v === 'string'\<close>\<close>
  "asString v = (case v of Some (JStr s) \<Rightarrow> Some s | _ \<Rightarrow> None)"

definition asFinite :: "jval option \<Rightarrow> real option" where
  \<comment> \<open>\<^verbatim>\<open>typeof v === 'number' && Number.isFinite(v)\<close>\<close>
  "asFinite v = (case v of Some (JNum r) \<Rightarrow> Some r | _ \<Rightarrow> None)"

definition nullish :: "jval option \<Rightarrow> jval option" where
  \<comment> \<open>The left operand of \<^verbatim>\<open>??\<close>: \<^verbatim>\<open>null\<close> and \<^verbatim>\<open>undefined\<close> both fall through.\<close>
  "nullish v = (case v of Some JNull \<Rightarrow> None | _ \<Rightarrow> v)"

definition orEmpty :: "jval \<Rightarrow> jval" where
  \<comment> \<open>\<^verbatim>\<open>value ?? {}\<close> on a stored field.\<close>
  "orEmpty v = (if v = JNull then JObj [] else v)"

definition isWhitespace :: "char \<Rightarrow> bool" where
  "isWhitespace c =
     (c \<in> set [CHR 0x09, CHR 0x0A, CHR 0x0B, CHR 0x0C, CHR 0x0D, CHR '' '', CHR 0xA0])"

definition trim :: "string \<Rightarrow> string" where
  "trim s = rev (dropWhile isWhitespace (rev (dropWhile isWhitespace s)))"

section \<open>Errors (errors.ts)\<close>

text \<open>
  A thrown \<^verbatim>\<open>ApiError\<close> carries a status, a message and optional details. A template
  literal is kept as its parts: \<open>S\<close> a piece of text or an interpolated string,
  \<open>N\<close> an interpolated number, \<open>Q\<close> a string interpolated between apostrophes. Any other
  exception is \<open>OtherError\<close>, which the boundary handler answers with status 500.
\<close>

datatype part = S string | N real | Q string

record goal_summary =
  gs_goalId :: string
  gs_title :: string
  gs_weeklyHours :: real

datatype details =
    NoDetails
  | BudgetDetails (availableHoursPerWeek: real) (requiredHoursPerWeek: real)
      (conflictingGoals: "goal_summary list")
  | ConflictDetails (conflictingTaskIds: "string list")

datatype thrown = ApiError nat "part list" details | OtherError

fun statusOf :: "thrown \<Rightarrow> nat" where
  "statusOf (ApiError st m d) = st"
| "statusOf OtherError = 500"

section \<open>Documents\<close>

type_synonym day = int
  \<comment> \<open>A calendar day \<^verbatim>\<open>YYYY-MM-DD\<close>, by its day number: the ISO rendering orders days as
      their numbers do.\<close>

record user =
  u_id :: string
  u_email :: string
  u_name :: string
  u_profileImageUrl :: "string option"
  u_timezone :: string
  u_availableHoursPerWeek :: real
  u_createdAt :: string
  u_updatedAt :: string
  u_googleSub :: string

record session =
  s_id :: string
  s_userId :: string
  s_chatId :: string
  s_state :: string
  s_iteration :: int
  s_goalPreviewId :: "string option"
  s_sessionActive :: bool
  s_context :: jval
  s_createdAt :: string
  s_updatedAt :: string

record chat =
  c_id :: string
  c_userId :: string
  c_createdAt :: string
  c_updatedAt :: string

datatype sender = User | Agent

record chat_message =
  cm_chatId :: string
  cm_sessionId :: string
  cm_sender :: sender
  cm_message :: string
  cm_createdAt :: string

record goal_preview =
  p_id :: string
  p_userId :: string
  p_sessionId :: string
  p_data :: jval
  p_createdAt :: string
  p_updatedAt :: string

text \<open>
  Modelled from the spec: \<^verbatim>\<open>types/models.ts\<close>, \<^verbatim>\<open>goalRepository.ts\<close>,
  \<^verbatim>\<open>milestoneRepository.ts\<close> and \<^verbatim>\<open>taskRepository.ts\<close> are not among the sources. The
  records of goals, milestones and tasks carry the fields of section 3 of the
  specification, which are also the fields the handlers and serializers read.
\<close>

datatype goal_status = Active | Completed | Paused | Archived

record goal =
  g_id :: string
  g_userId :: string
  g_title :: string
  g_description :: "string option"
  g_status :: goal_status
  g_minHoursPerWeek :: real
  g_priority :: int
  g_color :: "real option"
  g_createdAt :: string
  g_updatedAt :: string

datatype milestone_status = Blocked | InProgress | Finished

record milestone =
  m_id :: string
  m_goalId :: string
  m_parentMilestoneId :: "string option"
  m_title :: string
  m_description :: "string option"
  m_status :: milestone_status
  m_createdAt :: string
  m_updatedAt :: string

record task =
  t_id :: string
  t_goalId :: string
  t_milestoneId :: string
  t_userId :: string
  t_title :: string
  t_description :: "string option"
  t_date :: day
  t_estimatedHours :: real
  t_done :: bool
  t_createdAt :: string
  t_updatedAt :: string

section \<open>The external agent (agentService.ts)\<close>

text \<open>
  Modelled from the spec: \<^verbatim>\<open>AgentServiceResponse\<close> is declared in \<^verbatim>\<open>types/models.ts\<close>,
  which is not among the sources; its fields are those of section 4.4 of the
  specification and those the message handler reads. An optional field is \<open>None\<close> when
  the agent leaves it out.
\<close>

record session_view =
  sv_state :: string
  sv_iteration :: int
  sv_sessionActive :: bool
  sv_goalPreviewId :: "string option"

record agent_state =
  as_state :: "string option"
  as_iteration :: "int option"
  as_sessionActive :: "bool option"
  as_goalPreviewId :: "string option"

record agent_action =
  a_type :: string
  a_payload :: "jval option"

record agent_response =
  r_reply :: string
  r_action :: "agent_action option"
  r_state :: "agent_state option"
  r_context :: "jval option"

record agent_request =
  q_sessionId :: string
  q_userId :: string
  q_message :: string
  q_context :: jval
  q_state :: session_view

datatype fetch_result =
    NetworkFailure
  | HttpError nat string
  | HttpOk "agent_response option"

text \<open>
  \<open>NetworkFailure\<close>: \<^verbatim>\<open>fetch\<close> throws. \<open>HttpError st txt\<close>: a response that is not
  \<^verbatim>\<open>ok\<close>, with its status and body text. \<open>HttpOk None\<close>: an \<^verbatim>\<open>ok\<close> response whose body
  is not JSON, so that \<^verbatim>\<open>response.json()\<close> throws.
\<close>

section \<open>The world: document store, clock and agent\<close>

record world =
  users :: "string \<rightharpoonup> user"
  goals :: "goal list"
  milestones :: "string \<rightharpoonup> milestone"
  tasks :: "task list"
  sessions :: "string \<rightharpoonup> session"
  chats :: "string \<rightharpoonup> chat"
  chatMessages :: "chat_message list"
  goalPreviews :: "string \<rightharpoonup> goal_preview"
  agentLog :: "(agent_request \<times> fetch_result) list"

text \<open>
  Keyed collections are maps from document id to document; goals and tasks, which are
  queried by field, and the append-only chat transcript are lists in insertion order.
  \<open>agentLog\<close> is the record of the exchanges with the external agent: each call of
  \<^verbatim>\<open>fetch\<close> appends the request sent and what came back.
\<close>

record env =
  now :: string
  today :: day
  dayAfter :: "int \<Rightarrow> day"
  freshId :: "nat \<Rightarrow> string"
  parseDate :: "string \<Rightarrow> day option"
  agentServiceUrl :: "string option"
  fetch :: "agent_request \<Rightarrow> fetch_result"

text \<open>
  What a request takes from outside the store: \<open>now\<close> is \<^verbatim>\<open>new Date().toISOString()\<close>,
  the same instant at every reading of the clock within one request, and \<open>today\<close> its
  first ten characters as a day; \<open>dayAfter n\<close> is the same rendering of that instant
  moved ahead by \<^verbatim>\<open>setDate(getDate() + n)\<close>, which works in the server's local time: it
  is \<open>today + n\<close> unless a shift of the local time falls in between; \<open>freshId n\<close> is
  the id the store generates at the \<open>n\<close>-th call of \<^verbatim>\<open>collection.doc()\<close> for a keyed
  document; \<open>parseDate\<close> is \<^verbatim>\<open>new Date(value)\<close> followed by
  \<^verbatim>\<open>toISOString().slice(0, 10)\<close>, \<open>None\<close> for an invalid date; \<open>agentServiceUrl\<close> is the
  environment variable \<^verbatim>\<open>AGENT_SERVICE_URL\<close>; \<open>fetch\<close> is the agent's answer to a request.
\<close>

record request =
  authUserId :: "string option"
  param :: string
  body :: jval

text \<open>
  A request after \<^verbatim>\<open>authMiddleware\<close>: \<open>authUserId\<close> is \<^verbatim>\<open>req.user?.userId\<close>, \<open>param\<close> the
  path parameter of the route, \<open>body\<close> is \<^verbatim>\<open>req.body ?? {}\<close>.
\<close>

definition unauthorized :: thrown where
  "unauthorized = ApiError 401 [S ''Unauthorized''] NoDetails"

definition authenticated :: "request \<Rightarrow> string option" where
  \<comment> \<open>\<^verbatim>\<open>assert(userId, 401, 'Unauthorized')\<close>: an empty string is falsy as well.\<close>
  "authenticated req =
     (case authUserId req of None \<Rightarrow> None | Some u \<Rightarrow> if u = [] then None else Some u)"


section \<open>Session repository (sessionRepository.ts)\<close>

definition mapSession :: "string \<Rightarrow> session \<Rightarrow> session" where
  \<comment> \<open>Stored session documents carry every field; of the defaults of \<^verbatim>\<open>mapSession\<close>
      only \<^verbatim>\<open>context ?? {}\<close> can apply.\<close>
  "mapSession docId d = d\<lparr>s_id := docId, s_context := orEmpty (s_context d)\<rparr>"

definition findSessionById :: "world \<Rightarrow> string \<Rightarrow> session option" where
  "findSessionById w i = map_option (mapSession i) (sessions w i)"

definition createSession :: "env \<Rightarrow> world \<Rightarrow> string \<Rightarrow> jval \<Rightarrow> session \<times> world" where
  "createSession e w userId ctx =
     (let chatId = freshId e 0;
          w1 = w\<lparr>chats := (chats w)(chatId \<mapsto>
                 \<lparr>c_id = chatId, c_userId = userId, c_createdAt = now e, c_updatedAt = now e\<rparr>)\<rparr>;
          sessionId = freshId e 1;
          record = \<lparr>s_id = sessionId, s_userId = userId, s_chatId = chatId,
                    s_state = ''plan_generated'', s_iteration = 0, s_goalPreviewId = None,
                    s_sessionActive = True, s_context = ctx,
                    s_createdAt = now e, s_updatedAt = now e\<rparr>
      in (record, w1\<lparr>sessions := (sessions w1)(sessionId \<mapsto> record)\<rparr>))"

record session_updates =
  up_state :: "string option"
  up_iteration :: "int option"
  up_goalPreviewId :: "string option option"
  up_sessionActive :: "bool option"
  up_context :: "jval option"

text \<open>
  \<^verbatim>\<open>UpdateSessionInput\<close>: \<open>None\<close> is a field that is \<^verbatim>\<open>undefined\<close>; for \<open>up_goalPreviewId\<close>,
  \<open>Some None\<close> is \<^verbatim>\<open>null\<close>.
\<close>

definition updateSession ::
  "env \<Rightarrow> world \<Rightarrow> string \<Rightarrow> session_updates \<Rightarrow> (thrown + session) \<times> world" where
  "updateSession e w i updates =
     (case sessions w i of
        None \<Rightarrow> (Inl (ApiError 404 [S ''Session not found.''] NoDetails), w)
      | Some d \<Rightarrow>
          (let d' = d\<lparr>s_updatedAt := now e,
                      s_state := (case up_state updates of None \<Rightarrow> s_state d | Some x \<Rightarrow> x),
                      s_iteration :=
                        (case up_iteration updates of None \<Rightarrow> s_iteration d | Some x \<Rightarrow> x),
                      s_goalPreviewId :=
                        (case up_goalPreviewId updates of None \<Rightarrow> s_goalPreviewId d | Some x \<Rightarrow> x),
                      s_sessionActive :=
                        (case up_sessionActive updates of None \<Rightarrow> s_sessionActive d | Some x \<Rightarrow> x),
                      s_context := (case up_context updates of None \<Rightarrow> s_context d | Some x \<Rightarrow> x)\<rparr>
           in (Inr (mapSession i d'), w\<lparr>sessions := (sessions w)(i \<mapsto> d')\<rparr>)))"

record chat_message_input =
  ci_chatId :: string
  ci_sessionId :: string
  ci_sender :: sender
  ci_message :: string

definition appendChatMessage ::
  "env \<Rightarrow> world \<Rightarrow> chat_message_input \<Rightarrow> (thrown + unit) \<times> world" where
  \<comment> \<open>The message document is set first; the two \<^verbatim>\<open>update\<close> calls that follow reject
      when their document does not exist.\<close>
  "appendChatMessage e w input =
     (let w1 = w\<lparr>chatMessages := chatMessages w @
                 [\<lparr>cm_chatId = ci_chatId input, cm_sessionId = ci_sessionId input,
                   cm_sender = ci_sender input, cm_message = ci_message input,
                   cm_createdAt = now e\<rparr>]\<rparr>
      in case chats w1 (ci_chatId input) of
           None \<Rightarrow> (Inl OtherError, w1)
         | Some c \<Rightarrow>
             (let w2 = w1\<lparr>chats := (chats w1)(ci_chatId input \<mapsto> c\<lparr>c_updatedAt := now e\<rparr>)\<rparr>
              in case sessions w2 (ci_sessionId input) of
                   None \<Rightarrow> (Inl OtherError, w2)
                 | Some d \<Rightarrow>
                     (Inr (),
                      w2\<lparr>sessions :=
                            (sessions w2)(ci_sessionId input \<mapsto> d\<lparr>s_updatedAt := now e\<rparr>)\<rparr>)))"

section \<open>Goal preview repository (goalPreviewRepository.ts)\<close>

definition mapPreview :: "string \<Rightarrow> goal_preview \<Rightarrow> goal_preview" where
  "mapPreview docId d = d\<lparr>p_id := docId, p_data := orEmpty (p_data d)\<rparr>"

record upsert_goal_preview_input =
  ui_id :: "string option"
  ui_userId :: string
  ui_sessionId :: string
  ui_data :: jval

definition setGoalPreview :: "env \<Rightarrow> world \<Rightarrow> string \<Rightarrow> upsert_goal_preview_input \<Rightarrow> world" where
  \<comment> \<open>\<^verbatim>\<open>docRef.set({id, userId, sessionId, data, createdAt: now, updatedAt: now})\<close>\<close>
  "setGoalPreview e w i input =
     w\<lparr>goalPreviews := (goalPreviews w)(i \<mapsto>
         \<lparr>p_id = i, p_userId = ui_userId input, p_sessionId = ui_sessionId input,
          p_data = ui_data input, p_createdAt = now e, p_updatedAt = now e\<rparr>)\<rparr>"

definition upsertGoalPreview ::
  "env \<Rightarrow> world \<Rightarrow> upsert_goal_preview_input \<Rightarrow> goal_preview \<times> world" where
  "upsertGoalPreview e w input =
     (case (case ui_id input of None \<Rightarrow> None | Some i \<Rightarrow> if i = [] then None else Some i) of
        Some i \<Rightarrow>
          (case goalPreviews w i of
             None \<Rightarrow>
               (mapPreview i \<lparr>p_id = i, p_userId = ui_userId input,
                              p_sessionId = ui_sessionId input, p_data = ui_data input,
                              p_createdAt = now e, p_updatedAt = now e\<rparr>,
                setGoalPreview e w i input)
           | Some d \<Rightarrow>
               (let d' = d\<lparr>p_data := ui_data input, p_updatedAt := now e\<rparr>
                in (mapPreview i d', w\<lparr>goalPreviews := (goalPreviews w)(i \<mapsto> d')\<rparr>)))
      | None \<Rightarrow>
          (mapPreview (freshId e 0)
             \<lparr>p_id = freshId e 0, p_userId = ui_userId input, p_sessionId = ui_sessionId input,
              p_data = ui_data input, p_createdAt = now e, p_updatedAt = now e\<rparr>,
           setGoalPreview e w (freshId e 0) input))"

section \<open>Agent gateway (agentService.ts)\<close>

definition agentUnavailable :: thrown where
  "agentUnavailable =
     ApiError 503 [S ''Agent service unavailable. Please try again later.''] NoDetails"

definition invokeAgentService ::
  "env \<Rightarrow> world \<Rightarrow> agent_request \<Rightarrow> (thrown + agent_response) \<times> world" where
  "invokeAgentService e w payload =
     (case (case agentServiceUrl e of None \<Rightarrow> None
            | Some u \<Rightarrow> if u = [] then None else Some u) of
        None \<Rightarrow> (Inl (ApiError 500 [S ''Agent service URL not configured.''] NoDetails), w)
      | Some url \<Rightarrow>
          (let w1 = w\<lparr>agentLog := agentLog w @ [(payload, fetch e payload)]\<rparr>
           in case fetch e payload of
                NetworkFailure \<Rightarrow> (Inl agentUnavailable, w1)
              | HttpError st txt \<Rightarrow>
                  if st = 503 then (Inl agentUnavailable, w1)
                  else (Inl (ApiError st
                               [S (if txt = [] then ''Agent service error.'' else txt)]
                               NoDetails), w1)
              | HttpOk None \<Rightarrow> (Inl agentUnavailable, w1)
              | HttpOk (Some data) \<Rightarrow> (Inr data, w1)))"


section \<open>POST /v1/agent/goal/session:message (index.ts)\<close>

record message_response =
  mr_sessionId :: string
  mr_reply :: string
  mr_action :: "agent_action option"
  mr_state :: session_view
  mr_context :: jval

definition nonBlank :: "jval option \<Rightarrow> string option" where
  \<comment> \<open>\<^verbatim>\<open>typeof v === 'string' && v.trim().length > 0\<close>\<close>
  "nonBlank v =
     (case asString v of None \<Rightarrow> None | Some s \<Rightarrow> if trim s = [] then None else Some s)"

definition messageContext :: "jval option \<Rightarrow> session \<Rightarrow> jval" where
  \<comment> \<open>\<^verbatim>\<open>contextOverride && typeof contextOverride === 'object' ? contextOverride
      : session.context ?? {}\<close>: objects and arrays are the truthy values of type object.\<close>
  "messageContext contextOverride session =
     (case contextOverride of
        Some (JObj kvs) \<Rightarrow> JObj kvs
      | Some (JArr xs) \<Rightarrow> JArr xs
      | _ \<Rightarrow> orEmpty (s_context session))"

definition sessionFinalized :: "string \<Rightarrow> thrown" where
  "sessionFinalized sessionId =
     ApiError 409 [S ''Session '', Q sessionId, S '' is finalized and cannot accept new messages.'']
       NoDetails"

definition validateMessage ::
  "world \<Rightarrow> request \<Rightarrow> thrown + (string \<times> session \<times> string \<times> jval)" where
  \<comment> \<open>The handler up to the computation of \<^verbatim>\<open>context\<close>: nothing is written yet.\<close>
  "validateMessage w req =
     (case authenticated req of
        None \<Rightarrow> Inl unauthorized
      | Some userId \<Rightarrow>
     (case nonBlank (getProp ''sessionId'' (body req)) of
        None \<Rightarrow> Inl (ApiError 400 [S ''sessionId is required.''] NoDetails)
      | Some sessionId \<Rightarrow>
     (case nonBlank (getProp ''message'' (body req)) of
        None \<Rightarrow> Inl (ApiError 400 [S ''message is required.''] NoDetails)
      | Some message \<Rightarrow>
          if getProp ''userId'' (body req) \<noteq> None
             \<and> getProp ''userId'' (body req) \<noteq> Some (JStr userId)
          then Inl (ApiError 401 [S ''Unauthorized.''] NoDetails)
          else
     (case findSessionById w sessionId of
        None \<Rightarrow> Inl (ApiError 400 [S ''Session '', Q sessionId, S '' not found.''] NoDetails)
      | Some session \<Rightarrow>
          if s_userId session \<noteq> userId
          then Inl (ApiError 401 [S ''Unauthorized.''] NoDetails)
          else if \<not> s_sessionActive session
          then Inl (sessionFinalized sessionId)
          else Inr (userId, session, message,
                    messageContext (getProp ''context'' (body req)) session)))))"

definition agentPayload :: "string \<Rightarrow> session \<Rightarrow> string \<Rightarrow> jval \<Rightarrow> agent_request" where
  "agentPayload userId session message ctx =
     \<lparr>q_sessionId = s_id session, q_userId = userId, q_message = message, q_context = ctx,
      q_state = \<lparr>sv_state = s_state session, sv_iteration = s_iteration session,
                 sv_sessionActive = s_sessionActive session,
                 sv_goalPreviewId = s_goalPreviewId session\<rparr>\<rparr>"

definition actionType :: "agent_response \<Rightarrow> string option" where
  \<comment> \<open>\<^verbatim>\<open>agentResponse.action?.type\<close>\<close>
  "actionType r = map_option a_type (r_action r)"

definition previewPayload :: "agent_response \<Rightarrow> jval" where
  \<comment> \<open>\<^verbatim>\<open>action.payload?.goalPreview ?? action.payload ?? {}\<close>\<close>
  "previewPayload r =
     (let payload = Option.bind (r_action r) a_payload
      in case nullish (Option.bind payload (getProp ''goalPreview'')) of
           Some g \<Rightarrow> g
         | None \<Rightarrow> (case nullish payload of Some pl \<Rightarrow> pl | None \<Rightarrow> JObj []))"

definition savePreview ::
  "env \<Rightarrow> world \<Rightarrow> string \<Rightarrow> session \<Rightarrow> agent_response \<Rightarrow> string option \<times> world" where
  \<comment> \<open>\<^verbatim>\<open>goalPreviewId\<close> after the \<^verbatim>\<open>save_preview\<close> branch.\<close>
  "savePreview e w userId session r =
     (if actionType r = Some ''save_preview''
      then (let (previewRecord, w') =
                  upsertGoalPreview e w
                    \<lparr>ui_id = asString (getProp ''id'' (previewPayload r)), ui_userId = userId,
                     ui_sessionId = s_id session, ui_data = previewPayload r\<rparr>
            in (Some (p_id previewRecord), w'))
      else (s_goalPreviewId session, w))"

definition nextSessionActive :: "session \<Rightarrow> agent_response \<Rightarrow> bool" where
  "nextSessionActive session r =
     (if actionType r = Some ''finalize_goal'' then False
      else (case Option.bind (r_state r) as_sessionActive of
              None \<Rightarrow> s_sessionActive session
            | Some b \<Rightarrow> b))"

definition sessionUpdates ::
  "session \<Rightarrow> jval \<Rightarrow> string option \<Rightarrow> agent_response \<Rightarrow> session_updates" where
  \<comment> \<open>The second argument of the \<^verbatim>\<open>updateSession\<close> call.\<close>
  "sessionUpdates session ctx goalPreviewId r =
     \<lparr>up_state = Some (case Option.bind (r_state r) as_state of
                        None \<Rightarrow> s_state session | Some x \<Rightarrow> x),
      up_iteration = Some (case Option.bind (r_state r) as_iteration of
                            None \<Rightarrow> s_iteration session + 1 | Some n \<Rightarrow> n),
      up_goalPreviewId = Some (case Option.bind (r_state r) as_goalPreviewId of
                                None \<Rightarrow> goalPreviewId | Some g \<Rightarrow> Some g),
      up_sessionActive = Some (nextSessionActive session r),
      up_context = Some (case nullish (r_context r) of None \<Rightarrow> ctx | Some c \<Rightarrow> c)\<rparr>"

definition completeTurn ::
  "env \<Rightarrow> world \<Rightarrow> string \<Rightarrow> session \<Rightarrow> jval \<Rightarrow> agent_response
     \<Rightarrow> (thrown + message_response) \<times> world" where
  \<comment> \<open>The handler after the agent has answered.\<close>
  "completeTurn e w userId session ctx r =
     (case appendChatMessage e w
             \<lparr>ci_chatId = s_chatId session, ci_sessionId = s_id session, ci_sender = Agent,
              ci_message = r_reply r\<rparr> of
        (Inl err, w1) \<Rightarrow> (Inl err, w1)
      | (Inr u, w1) \<Rightarrow>
          (case savePreview e w1 userId session r of
             (goalPreviewId, w2) \<Rightarrow>
               (case updateSession e w2 (s_id session)
                       (sessionUpdates session ctx goalPreviewId r) of
                  (Inl err, w3) \<Rightarrow> (Inl err, w3)
                | (Inr updatedSession, w3) \<Rightarrow>
                    (Inr \<lparr>mr_sessionId = s_id updatedSession, mr_reply = r_reply r,
                          mr_action = r_action r,
                          mr_state = \<lparr>sv_state = s_state updatedSession,
                                       sv_iteration = s_iteration updatedSession,
                                       sv_sessionActive = s_sessionActive updatedSession,
                                       sv_goalPreviewId = s_goalPreviewId updatedSession\<rparr>,
                          mr_context = s_context updatedSession\<rparr>,
                     w3))))"

definition agentTurn ::
  "env \<Rightarrow> world \<Rightarrow> string \<Rightarrow> session \<Rightarrow> string \<Rightarrow> jval
     \<Rightarrow> (thrown + message_response) \<times> world" where
  \<comment> \<open>The handler from the first \<^verbatim>\<open>appendChatMessage\<close> on.\<close>
  "agentTurn e w userId session message ctx =
     (case appendChatMessage e w
             \<lparr>ci_chatId = s_chatId session, ci_sessionId = s_id session, ci_sender = User,
              ci_message = message\<rparr> of
        (Inl err, w1) \<Rightarrow> (Inl err, w1)
      | (Inr u, w1) \<Rightarrow>
          (case invokeAgentService e w1 (agentPayload userId session message ctx) of
             (Inl err, w2) \<Rightarrow> (Inl err, w2)
           | (Inr agentResponse, w2) \<Rightarrow> completeTurn e w2 userId session ctx agentResponse))"

definition sessionMessage ::
  "env \<Rightarrow> world \<Rightarrow> request \<Rightarrow> (thrown + message_response) \<times> world" where
  "sessionMessage e w req =
     (case validateMessage w req of
        Inl err \<Rightarrow> (Inl err, w)
      | Inr (userId, session, message, ctx) \<Rightarrow> agentTurn e w userId session message ctx)"



section \<open>User repository (userRepository.ts)\<close>

definition mapUser :: "string \<Rightarrow> user \<Rightarrow> user" where
  "mapUser docId d = d\<lparr>u_id := docId\<rparr>"

definition findUserById :: "world \<Rightarrow> string \<Rightarrow> user option" where
  "findUserById w i = map_option (mapUser i) (users w i)"

record update_user_input =
  uu_name :: "string option"
  uu_profileImageUrl :: "string option option"
  uu_timezone :: "string option"
  uu_availableHoursPerWeek :: "real option"
  uu_googleSub :: "string option"

definition noUserUpdates :: update_user_input where
  "noUserUpdates =
     \<lparr>uu_name = None, uu_profileImageUrl = None, uu_timezone = None,
      uu_availableHoursPerWeek = None, uu_googleSub = None\<rparr>"

definition updateUser ::
  "env \<Rightarrow> world \<Rightarrow> string \<Rightarrow> update_user_input \<Rightarrow> (thrown + user) \<times> world" where
  "updateUser e w i updates =
     (case users w i of
        None \<Rightarrow> (Inl (ApiError 404 [S ''User not found.''] NoDetails), w)
      | Some d \<Rightarrow>
          (let d' = d\<lparr>u_updatedAt := now e,
                      u_name := (case uu_name updates of None \<Rightarrow> u_name d | Some x \<Rightarrow> x),
                      u_profileImageUrl :=
                        (case uu_profileImageUrl updates of
                           None \<Rightarrow> u_profileImageUrl d | Some x \<Rightarrow> x),
                      u_timezone :=
                        (case uu_timezone updates of None \<Rightarrow> u_timezone d | Some x \<Rightarrow> x),
                      u_availableHoursPerWeek :=
                        (case uu_availableHoursPerWeek updates of
                           None \<Rightarrow> u_availableHoursPerWeek d | Some x \<Rightarrow> x),
                      u_googleSub :=
                        (case uu_googleSub updates of None \<Rightarrow> u_googleSub d | Some x \<Rightarrow> x)\<rparr>
           in (Inr (mapUser i d'), w\<lparr>users := (users w)(i \<mapsto> d')\<rparr>)))"

section \<open>Goal, milestone and task repositories\<close>

text \<open>
  Modelled from the spec: \<^verbatim>\<open>goalRepository.ts\<close>, \<^verbatim>\<open>milestoneRepository.ts\<close> and
  \<^verbatim>\<open>taskRepository.ts\<close> are not among the sources; the handlers and the context builder
  that call them are. Each accessor below is what its name and the specification say:
  lookups by id, the listings by owner, the sum of \<open>minHoursPerWeek\<close> over a user's
  active goals other than an excluded one (section 4.2), creation of a document with a
  generated id and update of the named fields of a document.
\<close>

definition getGoalById :: "world \<Rightarrow> string \<Rightarrow> goal option" where
  \<comment> \<open>Modelled from the spec: lookup of a goal by id (\<^verbatim>\<open>goalRepository.ts\<close> is absent).\<close>
  "getGoalById w i = find (\<lambda>g. g_id g = i) (goals w)"

definition listGoals :: "world \<Rightarrow> string \<Rightarrow> goal_status option \<Rightarrow> goal list" where
  \<comment> \<open>Modelled from the spec: the goals of a user, filtered by status
      (\<^verbatim>\<open>goalRepository.ts\<close> is absent). \<open>None\<close> is the filter \<^verbatim>\<open>'all'\<close>.\<close>
  "listGoals w userId st =
     filter (\<lambda>g. g_userId g = userId \<and> (case st of None \<Rightarrow> True | Some x \<Rightarrow> g_status g = x))
       (goals w)"

definition sumActiveGoalHours :: "world \<Rightarrow> string \<Rightarrow> string option \<Rightarrow> real" where
  \<comment> \<open>Modelled from the spec: \<^verbatim>\<open>sumActiveGoalHours(userId, excludeGoalId?)\<close> of the absent
      \<^verbatim>\<open>goalRepository.ts\<close>, the sum of \<open>minHoursPerWeek\<close> over the user's active goals other
      than the excluded one (section 4.2).\<close>
  "sumActiveGoalHours w userId excludeGoalId =
     sum_list (map g_minHoursPerWeek
       (filter (\<lambda>g. Some (g_id g) \<noteq> excludeGoalId) (listGoals w userId (Some Active))))"

record create_goal_input =
  cg_userId :: string
  cg_title :: string
  cg_description :: "string option"
  cg_minHoursPerWeek :: real
  cg_priority :: int
  cg_color :: "real option"

definition createGoal :: "env \<Rightarrow> world \<Rightarrow> create_goal_input \<Rightarrow> goal \<times> world" where
  \<comment> \<open>Modelled from the spec: creation of a goal (\<^verbatim>\<open>goalRepository.ts\<close> is absent). A
      created goal is active: its hours count against the budget from creation on.\<close>
  "createGoal e w input =
     (let g = \<lparr>g_id = freshId e 0, g_userId = cg_userId input, g_title = cg_title input,
               g_description = cg_description input, g_status = Active,
               g_minHoursPerWeek = cg_minHoursPerWeek input, g_priority = cg_priority input,
               g_color = cg_color input, g_createdAt = now e, g_updatedAt = now e\<rparr>
      in (g, w\<lparr>goals := goals w @ [g]\<rparr>))"

definition getMilestoneById :: "world \<Rightarrow> string \<Rightarrow> milestone option" where
  \<comment> \<open>Modelled from the spec: lookup of a milestone by id (\<^verbatim>\<open>milestoneRepository.ts\<close> is absent).\<close>
  "getMilestoneById w i = milestones w i"

definition getTaskById :: "world \<Rightarrow> string \<Rightarrow> task option" where
  \<comment> \<open>Modelled from the spec: lookup of a task by id (\<^verbatim>\<open>taskRepository.ts\<close> is absent).\<close>
  "getTaskById w i = find (\<lambda>t. t_id t = i) (tasks w)"

definition listTasksByMilestone :: "world \<Rightarrow> string \<Rightarrow> task list" where
  \<comment> \<open>Modelled from the spec: the tasks of a milestone (\<^verbatim>\<open>taskRepository.ts\<close> is absent).\<close>
  "listTasksByMilestone w milestoneId = filter (\<lambda>t. t_milestoneId t = milestoneId) (tasks w)"

definition listTasksByDateRange :: "world \<Rightarrow> string \<Rightarrow> day \<Rightarrow> day \<Rightarrow> task list" where
  \<comment> \<open>Modelled from the spec: the range accessor of \<^verbatim>\<open>taskRepository.ts\<close> is not among the
      sources, and the specification describes it only through its callers. Both bounds
      are inclusive, as the caller in the sources needs them: \<^verbatim>\<open>GET /v1/tasks:query\<close> asks
      for the tasks of one day with \<^verbatim>\<open>toDayRange(day) = { start: day, end: day }\<close>, which
      an exclusive end would leave empty for every store.\<close>
  "listTasksByDateRange w userId startDay endDay =
     filter (\<lambda>t. t_userId t = userId \<and> startDay \<le> t_date t \<and> t_date t \<le> endDay) (tasks w)"

record create_task_input =
  ct_goalId :: string
  ct_milestoneId :: string
  ct_userId :: string
  ct_title :: string
  ct_description :: "string option"
  ct_date :: day
  ct_estimatedHours :: real

definition createTask :: "env \<Rightarrow> world \<Rightarrow> create_task_input \<Rightarrow> task \<times> world" where
  \<comment> \<open>Modelled from the spec: creation of a task, not done (\<^verbatim>\<open>taskRepository.ts\<close> is
      absent).\<close>
  "createTask e w input =
     (let t = \<lparr>t_id = freshId e 0, t_goalId = ct_goalId input,
               t_milestoneId = ct_milestoneId input, t_userId = ct_userId input,
               t_title = ct_title input, t_description = ct_description input,
               t_date = ct_date input, t_estimatedHours = ct_estimatedHours input,
               t_done = False, t_createdAt = now e, t_updatedAt = now e\<rparr>
      in (t, w\<lparr>tasks := tasks w @ [t]\<rparr>))"

record update_task_input =
  ut_title :: "string option"
  ut_description :: "string option option"
  ut_date :: "day option"
  ut_estimatedHours :: "real option"
  ut_done :: "bool option"

definition applyTaskUpdates :: "env \<Rightarrow> update_task_input \<Rightarrow> task \<Rightarrow> task" where
  \<comment> \<open>Modelled from the spec: the named fields of a task replaced, as the update functions
      of the repositories in the sources do (\<^verbatim>\<open>taskRepository.ts\<close> is absent).\<close>
  "applyTaskUpdates e updates t =
     t\<lparr>t_updatedAt := now e,
       t_title := (case ut_title updates of None \<Rightarrow> t_title t | Some x \<Rightarrow> x),
       t_description := (case ut_description updates of None \<Rightarrow> t_description t | Some x \<Rightarrow> x),
       t_date := (case ut_date updates of None \<Rightarrow> t_date t | Some x \<Rightarrow> x),
       t_estimatedHours :=
         (case ut_estimatedHours updates of None \<Rightarrow> t_estimatedHours t | Some x \<Rightarrow> x),
       t_done := (case ut_done updates of None \<Rightarrow> t_done t | Some x \<Rightarrow> x)\<rparr>"

definition updateTask ::
  "env \<Rightarrow> world \<Rightarrow> string \<Rightarrow> update_task_input \<Rightarrow> (thrown + task) \<times> world" where
  \<comment> \<open>Modelled from the spec: update of a task by id (\<^verbatim>\<open>taskRepository.ts\<close> is absent).\<close>
  "updateTask e w i updates =
     (case getTaskById w i of
        None \<Rightarrow> (Inl (ApiError 404 [S ''Task not found.''] NoDetails), w)
      | Some t \<Rightarrow>
          (Inr (applyTaskUpdates e updates t),
           w\<lparr>tasks := map (\<lambda>x. if t_id x = i then applyTaskUpdates e updates x else x)
                         (tasks w)\<rparr>))"


section \<open>Context builder (contextService.ts)\<close>

record task_summary =
  ts_id :: string
  ts_title :: string
  ts_goalId :: string
  ts_milestoneId :: string
  ts_date :: day
  ts_estimatedHours :: real
  ts_done :: bool

record user_context =
  availableHoursLeft :: real
  upcomingTasks :: "task_summary list"

definition UPCOMING_DAYS :: int where
  "UPCOMING_DAYS = 7"

definition summarizeTask :: "task \<Rightarrow> task_summary" where
  "summarizeTask t =
     \<lparr>ts_id = t_id t, ts_title = t_title t, ts_goalId = t_goalId t,
      ts_milestoneId = t_milestoneId t, ts_date = t_date t,
      ts_estimatedHours = t_estimatedHours t, ts_done = t_done t\<rparr>"

definition buildUserContext :: "env \<Rightarrow> world \<Rightarrow> user \<Rightarrow> user_context" where
  \<comment> \<open>\<^verbatim>\<open>Array.prototype.sort\<close> is stable, as \<open>sort_key\<close> is. The end of the window is
      \<^verbatim>\<open>end.setDate(end.getDate() + UPCOMING_DAYS)\<close>, rendered as a day.\<close>
  "buildUserContext e w usr =
     (let startDay = today e;
          endDay = dayAfter e UPCOMING_DAYS;
          tasks = listTasksByDateRange w (u_id usr) startDay endDay;
          upcoming = sort_key ts_date (map summarizeTask (filter (\<lambda>t. \<not> t_done t) tasks));
          activeGoalHours = sumActiveGoalHours w (u_id usr) None
      in \<lparr>availableHoursLeft = max 0 (u_availableHoursPerWeek usr - activeGoalHours),
          upcomingTasks = upcoming\<rparr>)"

section \<open>Budget and conflict checks of the handlers (index.ts)\<close>

definition MAX_AVAILABLE_HOURS :: real where
  "MAX_AVAILABLE_HOURS = 168"

definition bindE :: "thrown + 'a \<Rightarrow> ('a \<Rightarrow> thrown + 'b) \<Rightarrow> thrown + 'b" where
  \<comment> \<open>Sequencing of steps that may throw.\<close>
  "bindE r f = (case r of Inl err \<Rightarrow> Inl err | Inr x \<Rightarrow> f x)"

definition collectActiveGoalSummaries :: "world \<Rightarrow> string \<Rightarrow> string option \<Rightarrow> goal_summary list" where
  "collectActiveGoalSummaries w userId excludeGoalId =
     map (\<lambda>g. \<lparr>gs_goalId = g_id g, gs_title = g_title g, gs_weeklyHours = g_minHoursPerWeek g\<rparr>)
       (filter (\<lambda>g. Some (g_id g) \<noteq> excludeGoalId) (listGoals w userId (Some Active)))"

definition ensureNoTaskConflict ::
  "world \<Rightarrow> string \<Rightarrow> string \<Rightarrow> day \<Rightarrow> string option \<Rightarrow> thrown + unit" where
  "ensureNoTaskConflict w milestoneId userId date excludeTaskId =
     (let conflicting =
            filter (\<lambda>t. Some (t_id t) \<noteq> excludeTaskId \<and> t_userId t = userId \<and> t_date t = date)
              (listTasksByMilestone w milestoneId)
      in if length conflicting > 0
         then Inl (ApiError 409
                [S ''Task date conflicts with an existing scheduled task or calendar event.'']
                (ConflictDetails (map t_id conflicting)))
         else Inr ())"

definition validateEstimatedHours :: "jval option \<Rightarrow> thrown + real" where
  "validateEstimatedHours v =
     (case asFinite v of
        None \<Rightarrow> Inl (ApiError 400 [S ''estimatedHours must be a number.''] NoDetails)
      | Some h \<Rightarrow>
          if h \<ge> 0 then Inr h
          else Inl (ApiError 400 [S ''estimatedHours must be zero or positive.''] NoDetails))"

definition validateIsoDate :: "env \<Rightarrow> jval option \<Rightarrow> thrown + day" where
  "validateIsoDate e v =
     (case nonBlank v of
        None \<Rightarrow> Inl (ApiError 400 [S ''date is required.''] NoDetails)
      | Some s \<Rightarrow>
          (case parseDate e s of
             None \<Rightarrow> Inl (ApiError 400 [S ''Invalid date format.''] NoDetails)
           | Some d \<Rightarrow> Inr d))"

definition assertOwnedGoal :: "world \<Rightarrow> string \<Rightarrow> string \<Rightarrow> thrown + goal" where
  "assertOwnedGoal w goalId userId =
     (case getGoalById w goalId of
        None \<Rightarrow> Inl (ApiError 404 [S ''Goal not found.''] NoDetails)
      | Some g \<Rightarrow>
          if g_userId g = userId then Inr g
          else Inl (ApiError 403 [S ''Forbidden.''] NoDetails))"

definition assertOwnedMilestone :: "world \<Rightarrow> string \<Rightarrow> string \<Rightarrow> thrown + milestone" where
  "assertOwnedMilestone w milestoneId userId =
     (case getMilestoneById w milestoneId of
        None \<Rightarrow> Inl (ApiError 404 [S ''Milestone not found.''] NoDetails)
      | Some m \<Rightarrow> bindE (assertOwnedGoal w (m_goalId m) userId) (\<lambda>g. Inr m))"

definition assertOwnedTask :: "world \<Rightarrow> string \<Rightarrow> string \<Rightarrow> thrown + (task \<times> milestone)" where
  "assertOwnedTask w taskId userId =
     (case getTaskById w taskId of
        None \<Rightarrow> Inl (ApiError 404 [S ''Task not found.''] NoDetails)
      | Some t \<Rightarrow> bindE (assertOwnedMilestone w (t_milestoneId t) userId) (\<lambda>m. Inr (t, m)))"

definition optionalText :: "part list \<Rightarrow> jval option \<Rightarrow> thrown + string option option" where
  \<comment> \<open>\<^verbatim>\<open>if (v !== undefined) assert(v === null || typeof v === 'string', 400, msg)\<close>; the
      result is the field of the update: absent, \<^verbatim>\<open>null\<close> or a string.\<close>
  "optionalText msg v =
     (case v of
        None \<Rightarrow> Inr None
      | Some JNull \<Rightarrow> Inr (Some None)
      | Some (JStr s) \<Rightarrow> Inr (Some (Some s))
      | _ \<Rightarrow> Inl (ApiError 400 msg NoDetails))"

definition optionalTitle :: "part list \<Rightarrow> jval option \<Rightarrow> thrown + string option" where
  \<comment> \<open>\<^verbatim>\<open>if (v !== undefined) assert(typeof v === 'string' && v.trim().length > 0, 400, msg)\<close>\<close>
  "optionalTitle msg v =
     (case v of
        None \<Rightarrow> Inr None
      | Some x \<Rightarrow>
          (case nonBlank (Some x) of
             None \<Rightarrow> Inl (ApiError 400 msg NoDetails)
           | Some s \<Rightarrow> Inr (Some s)))"

subsection \<open>POST /v1/goals\<close>

definition isInteger :: "real \<Rightarrow> bool" where
  "isInteger r = (r = of_int \<lfloor>r\<rfloor>)"

definition validateGoalBody :: "request \<Rightarrow> thrown + create_goal_input" where
  \<comment> \<open>The asserts on the body; \<open>cg_userId\<close> is filled in by the handler.\<close>
  "validateGoalBody req =
     (case nonBlank (getProp ''title'' (body req)) of
        None \<Rightarrow> Inl (ApiError 400 [S ''title is required.''] NoDetails)
      | Some title \<Rightarrow>
     (case asFinite (getProp ''minHoursPerWeek'' (body req)) of
        None \<Rightarrow> Inl (ApiError 400 [S ''minHoursPerWeek must be a non-negative number.''] NoDetails)
      | Some minHoursPerWeek \<Rightarrow>
          if \<not> minHoursPerWeek \<ge> 0
          then Inl (ApiError 400 [S ''minHoursPerWeek must be a non-negative number.''] NoDetails)
          else
     (case asFinite (getProp ''priority'' (body req)) of
        None \<Rightarrow> Inl (ApiError 400 [S ''priority must be an integer.''] NoDetails)
      | Some priority \<Rightarrow>
          if \<not> isInteger priority
          then Inl (ApiError 400 [S ''priority must be an integer.''] NoDetails)
          else if getProp ''color'' (body req) \<noteq> None
                  \<and> asFinite (getProp ''color'' (body req)) = None
          then Inl (ApiError 400 [S ''color must be a number.''] NoDetails)
          else Inr \<lparr>cg_userId = [], cg_title = trim title,
                    cg_description = asString (getProp ''description'' (body req)),
                    cg_minHoursPerWeek = minHoursPerWeek, cg_priority = \<lfloor>priority\<rfloor>,
                    cg_color = asFinite (getProp ''color'' (body req))\<rparr>)))"

definition goalBudgetExceeded :: "world \<Rightarrow> user \<Rightarrow> string \<Rightarrow> real \<Rightarrow> thrown" where
  "goalBudgetExceeded w usr userId totalHours =
     ApiError 409
       [S ''Available hours ('', N (u_availableHoursPerWeek usr),
        S ''h/week) are insufficient for current active goals ('', N totalHours,
        S ''h/week with new goal).'']
       (BudgetDetails (u_availableHoursPerWeek usr) totalHours
          (collectActiveGoalSummaries w userId None))"

definition postGoals :: "env \<Rightarrow> world \<Rightarrow> request \<Rightarrow> (thrown + nat \<times> goal) \<times> world" where
  "postGoals e w req =
     (case authenticated req of
        None \<Rightarrow> (Inl unauthorized, w)
      | Some userId \<Rightarrow>
     (case findUserById w userId of
        None \<Rightarrow> (Inl (ApiError 404 [S ''User not found.''] NoDetails), w)
      | Some usr \<Rightarrow>
     (case validateGoalBody req of
        Inl err \<Rightarrow> (Inl err, w)
      | Inr input \<Rightarrow>
          (let existingHours = sumActiveGoalHours w userId None;
               totalHours = existingHours + cg_minHoursPerWeek input
           in if totalHours > u_availableHoursPerWeek usr
              then (Inl (goalBudgetExceeded w usr userId totalHours), w)
              else (case createGoal e w (input\<lparr>cg_userId := userId\<rparr>) of
                      (g, w') \<Rightarrow> (Inr (201, g), w'))))))"

subsection \<open>PATCH /v1/me\<close>

definition meBudgetExceeded :: "world \<Rightarrow> string \<Rightarrow> real \<Rightarrow> real \<Rightarrow> thrown" where
  "meBudgetExceeded w userId hours activeHours =
     ApiError 409
       [S ''Available hours ('', N hours,
        S ''h/week) are insufficient for current active goals ('', N activeHours,
        S ''h/week required).'']
       (BudgetDetails hours activeHours (collectActiveGoalSummaries w userId None))"

definition validateAvailableHours :: "world \<Rightarrow> string \<Rightarrow> jval option \<Rightarrow> thrown + real option" where
  \<comment> \<open>The branch \<^verbatim>\<open>if (availableHoursPerWeek !== undefined)\<close>.\<close>
  "validateAvailableHours w userId v =
     (case v of
        None \<Rightarrow> Inr None
      | Some x \<Rightarrow>
          (case asFinite (Some x) of
             None \<Rightarrow> Inl (ApiError 400 [S ''availableHoursPerWeek must be a number.''] NoDetails)
           | Some hours \<Rightarrow>
               if \<not> (hours \<ge> 0 \<and> hours \<le> MAX_AVAILABLE_HOURS)
               then Inl (ApiError 400
                      [S ''availableHoursPerWeek must be between 0 and '', N MAX_AVAILABLE_HOURS,
                       S ''.''] NoDetails)
               else (let activeHours = sumActiveGoalHours w userId None
                     in if hours < activeHours
                        then Inl (meBudgetExceeded w userId hours activeHours)
                        else Inr (Some hours))))"

definition validateMeBody :: "world \<Rightarrow> string \<Rightarrow> request \<Rightarrow> thrown + update_user_input" where
  "validateMeBody w userId req =
     bindE (optionalTitle [S ''Invalid name.''] (getProp ''name'' (body req))) (\<lambda>name.
     bindE (optionalTitle [S ''Invalid timezone format.''] (getProp ''timezone'' (body req)))
       (\<lambda>timezone.
     bindE (optionalText [S ''profileImageUrl must be a string or null.'']
              (getProp ''profileImageUrl'' (body req))) (\<lambda>profileImageUrl.
     bindE (validateAvailableHours w userId (getProp ''availableHoursPerWeek'' (body req)))
       (\<lambda>hours.
       if name = None \<and> timezone = None \<and> profileImageUrl = None \<and> hours = None
       then Inl (ApiError 400 [S ''No updatable fields provided.''] NoDetails)
       else Inr \<lparr>uu_name = name, uu_profileImageUrl = profileImageUrl, uu_timezone = timezone,
                 uu_availableHoursPerWeek = hours, uu_googleSub = None\<rparr>))))"

definition patchMe :: "env \<Rightarrow> world \<Rightarrow> request \<Rightarrow> (thrown + user) \<times> world" where
  "patchMe e w req =
     (case authenticated req of
        None \<Rightarrow> (Inl unauthorized, w)
      | Some userId \<Rightarrow>
     (case findUserById w userId of
        None \<Rightarrow> (Inl (ApiError 404 [S ''User not found.''] NoDetails), w)
      | Some usr \<Rightarrow>
     (case validateMeBody w userId req of
        Inl err \<Rightarrow> (Inl err, w)
      | Inr updates \<Rightarrow> updateUser e w userId updates)))"


subsection \<open>POST /v1/milestones/:milestoneId/tasks\<close>

definition validateTaskBody :: "env \<Rightarrow> request \<Rightarrow> thrown + create_task_input" where
  \<comment> \<open>The asserts on the body; the handler fills in the goal, milestone and user ids.\<close>
  "validateTaskBody e req =
     (case nonBlank (getProp ''title'' (body req)) of
        None \<Rightarrow> Inl (ApiError 400 [S ''title is required.''] NoDetails)
      | Some title \<Rightarrow>
     bindE (optionalText [S ''description must be a string or null.'']
              (getProp ''description'' (body req))) (\<lambda>description.
     bindE (validateIsoDate e (getProp ''date'' (body req))) (\<lambda>taskDate.
     bindE (validateEstimatedHours (getProp ''estimatedHours'' (body req))) (\<lambda>hours.
       Inr \<lparr>ct_goalId = [], ct_milestoneId = [], ct_userId = [], ct_title = trim title,
            ct_description = (case description of None \<Rightarrow> None | Some x \<Rightarrow> x),
            ct_date = taskDate, ct_estimatedHours = hours\<rparr>))))"

definition postTask :: "env \<Rightarrow> world \<Rightarrow> request \<Rightarrow> (thrown + nat \<times> task) \<times> world" where
  "postTask e w req =
     (case authenticated req of
        None \<Rightarrow> (Inl unauthorized, w)
      | Some userId \<Rightarrow>
     (case assertOwnedMilestone w (param req) userId of
        Inl err \<Rightarrow> (Inl err, w)
      | Inr milestone \<Rightarrow>
     (case validateTaskBody e req of
        Inl err \<Rightarrow> (Inl err, w)
      | Inr input \<Rightarrow>
     (case ensureNoTaskConflict w (m_id milestone) userId (ct_date input) None of
        Inl err \<Rightarrow> (Inl err, w)
      | Inr u \<Rightarrow>
          (case createTask e w
                  (input\<lparr>ct_goalId := m_goalId milestone, ct_milestoneId := m_id milestone,
                         ct_userId := userId\<rparr>) of
             (t, w') \<Rightarrow> (Inr (201, t), w'))))))"

subsection \<open>PATCH /v1/tasks/:taskId\<close>

definition validateTaskDate ::
  "env \<Rightarrow> world \<Rightarrow> string \<Rightarrow> task \<Rightarrow> milestone \<Rightarrow> jval option \<Rightarrow> thrown + day option" where
  \<comment> \<open>The branch \<^verbatim>\<open>if (date !== undefined)\<close>.\<close>
  "validateTaskDate e w userId t milestone v =
     (case v of
        None \<Rightarrow> Inr None
      | Some x \<Rightarrow>
          bindE (validateIsoDate e (Some x)) (\<lambda>newDate.
          bindE (ensureNoTaskConflict w (m_id milestone) userId newDate (Some (t_id t))) (\<lambda>u.
            Inr (Some newDate))))"

definition validateTaskRest :: "request \<Rightarrow> thrown + real option \<times> bool option" where
  \<comment> \<open>The branches for \<^verbatim>\<open>estimatedHours\<close> and \<^verbatim>\<open>done\<close>, which follow the date check.\<close>
  "validateTaskRest req =
     bindE (case getProp ''estimatedHours'' (body req) of
              None \<Rightarrow> Inr None
            | Some x \<Rightarrow> bindE (validateEstimatedHours (Some x)) (\<lambda>h. Inr (Some h)))
       (\<lambda>hours.
     bindE (case getProp ''done'' (body req) of
              None \<Rightarrow> Inr None
            | Some (JBool b) \<Rightarrow> Inr (Some b)
            | _ \<Rightarrow> Inl (ApiError 400 [S ''done must be a boolean.''] NoDetails))
       (\<lambda>dn. Inr (hours, dn)))"

definition validateTaskPatch ::
  "env \<Rightarrow> world \<Rightarrow> string \<Rightarrow> task \<Rightarrow> milestone \<Rightarrow> request \<Rightarrow> thrown + update_task_input" where
  "validateTaskPatch e w userId t milestone req =
     bindE (optionalTitle [S ''Invalid title.''] (getProp ''title'' (body req))) (\<lambda>title.
     bindE (optionalText [S ''description must be a string or null.'']
              (getProp ''description'' (body req))) (\<lambda>description.
     bindE (validateTaskDate e w userId t milestone (getProp ''date'' (body req))) (\<lambda>newDate.
     bindE (validateTaskRest req) (\<lambda>(hours, dn).
       if title = None \<and> description = None \<and> newDate = None \<and> hours = None \<and> dn = None
       then Inl (ApiError 400 [S ''No updatable fields provided.''] NoDetails)
       else Inr \<lparr>ut_title = map_option trim title, ut_description = description,
                 ut_date = newDate, ut_estimatedHours = hours, ut_done = dn\<rparr>))))"

definition patchTask :: "env \<Rightarrow> world \<Rightarrow> request \<Rightarrow> (thrown + task) \<times> world" where
  "patchTask e w req =
     (case authenticated req of
        None \<Rightarrow> (Inl unauthorized, w)
      | Some userId \<Rightarrow>
     (case assertOwnedTask w (param req) userId of
        Inl err \<Rightarrow> (Inl err, w)
      | Inr (t, milestone) \<Rightarrow>
     (case validateTaskPatch e w userId t milestone req of
        Inl err \<Rightarrow> (Inl err, w)
      | Inr updates \<Rightarrow> updateTask e w (t_id t) updates)))"

definition colliding :: "world \<Rightarrow> string \<Rightarrow> string \<Rightarrow> day \<Rightarrow> string option \<Rightarrow> task list" where
  \<comment> \<open>The tasks of a milestone that a task of \<open>userId\<close> on \<open>date\<close> would collide with,
      leaving out the task \<open>excludeTaskId\<close> when one is being updated.\<close>
  "colliding w milestoneId userId date excludeTaskId =
     filter (\<lambda>t. t_milestoneId t = milestoneId \<and> t_userId t = userId \<and> t_date t = date
                 \<and> Some (t_id t) \<noteq> excludeTaskId) (tasks w)"

definition activeGoalsOf :: "world \<Rightarrow> string \<Rightarrow> goal list" where
  \<comment> \<open>The active goals of a user, in store order.\<close>
  "activeGoalsOf w userId = filter (\<lambda>g. g_userId g = userId \<and> g_status g = Active) (goals w)"

definition summaryOf :: "goal \<Rightarrow> goal_summary" where
  "summaryOf g = \<lparr>gs_goalId = g_id g, gs_title = g_title g, gs_weeklyHours = g_minHoursPerWeek g\<rparr>"


definition activeHours :: "world \<Rightarrow> string \<Rightarrow> real" where
  \<comment> \<open>The sum of \<open>minHoursPerWeek\<close> over the active goals of a user.\<close>
  "activeHours w userId = sum_list (map g_minHoursPerWeek (activeGoalsOf w userId))"



section \<open>A sample store and sample requests\<close>

text \<open>
  One user with a weekly budget of 20 hours, one active goal of 10 hours a week, one
  milestone with a task on 2025-11-17 (day 20409) and one on the day after, and one
  active session at its fifth iteration. The sample environment answers every agent call with \<open>answer\<close>.
\<close>

definition sampleEnv :: "fetch_result \<Rightarrow> env" where
  "sampleEnv answer =
     \<lparr>now = ''2025-11-10T09:00:00.000Z'', today = 20402,
      dayAfter = (\<lambda>n. 20402 + n),
      freshId = (\<lambda>n. if n = 0 then ''id-a'' else ''id-b''),
      parseDate = (\<lambda>s. if s = ''2025-11-17'' then Some 20409
                        else if s = ''2025-11-18'' then Some 20410
                        else if s = ''2025-11-19'' then Some 20411 else None),
      agentServiceUrl = Some ''http://agent.test'',
      fetch = (\<lambda>q. answer)\<rparr>"

definition sampleSession :: session where
  "sampleSession =
     \<lparr>s_id = ''s1'', s_userId = ''u1'', s_chatId = ''c1'', s_state = ''plan_iteration'',
      s_iteration = 5, s_goalPreviewId = None, s_sessionActive = True,
      s_context = JObj [(''availableHoursLeft'', JNum 10)],
      s_createdAt = ''2025-11-09T09:00:00.000Z'', s_updatedAt = ''2025-11-09T09:00:00.000Z''\<rparr>"

definition sampleWorld :: world where
  "sampleWorld =
     \<lparr>users = [''u1'' \<mapsto>
         \<lparr>u_id = ''u1'', u_email = ''u1@example.org'', u_name = ''Ada'',
          u_profileImageUrl = None, u_timezone = ''UTC'', u_availableHoursPerWeek = 20,
          u_createdAt = ''2025-11-01T00:00:00.000Z'', u_updatedAt = ''2025-11-01T00:00:00.000Z'',
          u_googleSub = ''g-1''\<rparr>],
      goals = [\<lparr>g_id = ''g1'', g_userId = ''u1'', g_title = ''Portfolio'',
                g_description = None, g_status = Active, g_minHoursPerWeek = 10,
                g_priority = 1, g_color = None,
                g_createdAt = ''2025-11-01T00:00:00.000Z'',
                g_updatedAt = ''2025-11-01T00:00:00.000Z''\<rparr>],
      milestones = [''m1'' \<mapsto>
         \<lparr>m_id = ''m1'', m_goalId = ''g1'', m_parentMilestoneId = None, m_title = ''Design'',
          m_description = None, m_status = InProgress,
          m_createdAt = ''2025-11-01T00:00:00.000Z'',
          m_updatedAt = ''2025-11-01T00:00:00.000Z''\<rparr>],
      tasks = [\<lparr>t_id = ''t1'', t_goalId = ''g1'', t_milestoneId = ''m1'', t_userId = ''u1'',
                t_title = ''Sketch'', t_description = None, t_date = 20409,
                t_estimatedHours = 2, t_done = False,
                t_createdAt = ''2025-11-01T00:00:00.000Z'',
                t_updatedAt = ''2025-11-01T00:00:00.000Z''\<rparr>,
               \<lparr>t_id = ''t2'', t_goalId = ''g1'', t_milestoneId = ''m1'', t_userId = ''u1'',
                t_title = ''Wireframes'', t_description = None, t_date = 20410,
                t_estimatedHours = 3, t_done = False,
                t_createdAt = ''2025-11-01T00:00:00.000Z'',
                t_updatedAt = ''2025-11-01T00:00:00.000Z''\<rparr>],
      sessions = [''s1'' \<mapsto> sampleSession],
      chats = [''c1'' \<mapsto>
         \<lparr>c_id = ''c1'', c_userId = ''u1'', c_createdAt = ''2025-11-09T09:00:00.000Z'',
          c_updatedAt = ''2025-11-09T09:00:00.000Z''\<rparr>],
      chatMessages = [],
      goalPreviews = Map.empty,
      agentLog = []\<rparr>"

definition sampleMessage :: "(string \<times> jval) list \<Rightarrow> request" where
  "sampleMessage extra =
     \<lparr>authUserId = Some ''u1'', param = [],
      body = JObj ([(''sessionId'', JStr ''s1''), (''message'', JStr ''Looks good'')] @ extra)\<rparr>"

definition finalizeReply :: agent_response where
  "finalizeReply =
     \<lparr>r_reply = ''Finalized.'',
      r_action = Some \<lparr>a_type = ''finalize_goal'', a_payload = None\<rparr>,
      r_state = Some \<lparr>as_state = Some ''finalized'', as_iteration = None,
                      as_sessionActive = Some True, as_goalPreviewId = None\<rparr>,
      r_context = None\<rparr>"


definition bareReply :: agent_response where
  \<comment> \<open>An answer that leaves out the action, the state and the context.\<close>
  "bareReply = \<lparr>r_reply = ''Noted.'', r_action = None, r_state = None, r_context = None\<rparr>"

definition finalizeBare :: agent_response where
  \<comment> \<open>A finalize action with no state payload.\<close>
  "finalizeBare =
     \<lparr>r_reply = ''Finalized.'',
      r_action = Some \<lparr>a_type = ''finalize_goal'', a_payload = None\<rparr>,
      r_state = None, r_context = None\<rparr>"

definition saveReply :: agent_response where
  \<comment> \<open>A \<^verbatim>\<open>save_preview\<close> action whose state leaves out the iteration.\<close>
  "saveReply =
     \<lparr>r_reply = ''Here is a plan.'',
      r_action = Some \<lparr>a_type = ''save_preview'',
                       a_payload = Some (JObj [(''goalPreview'',
                                                JObj [(''title'', JStr ''Portfolio'')])])\<rparr>,
      r_state = Some \<lparr>as_state = Some ''plan_generated'', as_iteration = None,
                      as_sessionActive = None, as_goalPreviewId = None\<rparr>,
      r_context = None\<rparr>"

definition resetReply :: agent_response where
  \<comment> \<open>An answer whose state carries iteration 0.\<close>
  "resetReply =
     \<lparr>r_reply = ''Starting over.'', r_action = None,
      r_state = Some \<lparr>as_state = None, as_iteration = Some 0, as_sessionActive = None,
                      as_goalPreviewId = None\<rparr>,
      r_context = None\<rparr>"


definition emptyWorld :: world where
  "emptyWorld =
     \<lparr>users = Map.empty, goals = [], milestones = Map.empty, tasks = [],
      sessions = Map.empty, chats = Map.empty, chatMessages = [],
      goalPreviews = Map.empty, agentLog = []\<rparr>"

definition createdWorld :: world where
  \<comment> \<open>The store after the creation of a session for user \<open>u1\<close>: the session is \<open>id-b\<close>.\<close>
  "createdWorld = snd (createSession (sampleEnv NetworkFailure) emptyWorld ''u1'' (JObj []))"

definition createdMessage :: request where
  "createdMessage =
     \<lparr>authUserId = Some ''u1'', param = [],
      body = JObj [(''sessionId'', JStr ''id-b''), (''message'', JStr ''Thanks'')]\<rparr>"

definition closedWorld :: world where
  \<comment> \<open>The sample store with its session finalized and inactive.\<close>
  "closedWorld =
     sampleWorld\<lparr>sessions :=
       [''s1'' \<mapsto> sampleSession\<lparr>s_state := ''finalized'', s_sessionActive := False\<rparr>]\<rparr>"

definition goalRequest :: "real \<Rightarrow> request" where
  \<comment> \<open>User \<open>u1\<close> creates a goal of the given weekly hours.\<close>
  "goalRequest hours =
     \<lparr>authUserId = Some ''u1'', param = [],
      body = JObj [(''title'', JStr ''Learn piano''), (''minHoursPerWeek'', JNum hours),
                   (''priority'', JNum 2)]\<rparr>"

definition meRequest :: "real \<Rightarrow> request" where
  \<comment> \<open>User \<open>u1\<close> sets the weekly budget.\<close>
  "meRequest hours =
     \<lparr>authUserId = Some ''u1'', param = [],
      body = JObj [(''availableHoursPerWeek'', JNum hours)]\<rparr>"

definition taskRequest :: "string \<Rightarrow> request" where
  \<comment> \<open>User \<open>u1\<close> creates a task under milestone \<open>m1\<close> on the given date.\<close>
  "taskRequest date =
     \<lparr>authUserId = Some ''u1'', param = ''m1'',
      body = JObj [(''title'', JStr ''Review''), (''date'', JStr date),
                   (''estimatedHours'', JNum 1)]\<rparr>"

definition taskDatePatch :: "string \<Rightarrow> string \<Rightarrow> request" where
  \<comment> \<open>User \<open>u1\<close> moves the task \<open>taskId\<close> to the given date.\<close>
  "taskDatePatch taskId date =
     \<lparr>authUserId = Some ''u1'', param = taskId, body = JObj [(''date'', JStr date)]\<rparr>"



definition sampleUser :: "real \<Rightarrow> user" where
  "sampleUser hours =
     \<lparr>u_id = ''u1'', u_email = ''u1@example.org'', u_name = ''Ada'',
      u_profileImageUrl = None, u_timezone = ''UTC'', u_availableHoursPerWeek = hours,
      u_createdAt = ''2025-11-01T00:00:00.000Z'', u_updatedAt = ''2025-11-01T00:00:00.000Z'',
      u_googleSub = ''g-1''\<rparr>"

fun agentCallFailed :: "fetch_result \<Rightarrow> bool" where
  \<comment> \<open>A network failure or a response that is not a successful JSON answer.\<close>
  "agentCallFailed NetworkFailure = True"
| "agentCallFailed (HttpError st txt) = True"
| "agentCallFailed (HttpOk None) = True"
| "agentCallFailed (HttpOk (Some r)) = False"

section \<open>Properties of the repositories and of the handlers\<close>

lemmas sample_defs = sampleEnv_def sampleSession_def sampleWorld_def sampleMessage_def
  emptyWorld_def createdWorld_def createdMessage_def closedWorld_def createSession_def

lemmas message_defs = sessionMessage_def validateMessage_def agentTurn_def completeTurn_def
  appendChatMessage_def invokeAgentService_def updateSession_def savePreview_def
  sessionUpdates_def nextSessionActive_def actionType_def agentPayload_def messageContext_def
  findSessionById_def mapSession_def authenticated_def nonBlank_def asString_def getProp_def
  trim_def isWhitespace_def orEmpty_def nullish_def previewPayload_def upsertGoalPreview_def
  setGoalPreview_def mapPreview_def sessionFinalized_def

lemma appendChatMessage_Inr:
  assumes "appendChatMessage e w i = (Inr u, w')"
  shows "\<exists>c d. chats w (ci_chatId i) = Some c \<and> sessions w (ci_sessionId i) = Some d \<and>
          w' = w\<lparr>chatMessages := chatMessages w @
                 [\<lparr>cm_chatId = ci_chatId i, cm_sessionId = ci_sessionId i,
                   cm_sender = ci_sender i, cm_message = ci_message i,
                   cm_createdAt = now e\<rparr>],
               chats := (chats w)(ci_chatId i \<mapsto> c\<lparr>c_updatedAt := now e\<rparr>),
               sessions := (sessions w)(ci_sessionId i \<mapsto> d\<lparr>s_updatedAt := now e\<rparr>)\<rparr>"
  using assms by (auto simp: appendChatMessage_def Let_def split: option.splits)

lemma invokeAgentService_Inr:
  assumes "invokeAgentService e w q = (Inr r, w')"
  shows "fetch e q = HttpOk (Some r) \<and> w' = w\<lparr>agentLog := agentLog w @ [(q, HttpOk (Some r))]\<rparr>"
  using assms by (auto simp: invokeAgentService_def Let_def split: option.splits fetch_result.splits if_splits)

lemma updateSession_Inr:
  assumes "updateSession e w i up = (Inr s', w')"
  shows "\<exists>d. sessions w i = Some d \<and>
     w' = w\<lparr>sessions := (sessions w)(i \<mapsto> d\<lparr>s_updatedAt := now e,
                      s_state := (case up_state up of None \<Rightarrow> s_state d | Some x \<Rightarrow> x),
                      s_iteration :=
                        (case up_iteration up of None \<Rightarrow> s_iteration d | Some x \<Rightarrow> x),
                      s_goalPreviewId :=
                        (case up_goalPreviewId up of None \<Rightarrow> s_goalPreviewId d | Some x \<Rightarrow> x),
                      s_sessionActive :=
                        (case up_sessionActive up of None \<Rightarrow> s_sessionActive d | Some x \<Rightarrow> x),
                      s_context := (case up_context up of None \<Rightarrow> s_context d | Some x \<Rightarrow> x)\<rparr>)\<rparr>
     \<and> findSessionById w' i = Some s'"
  using assms by (auto simp: updateSession_def findSessionById_def Let_def split: option.splits)

lemma savePreview_frame:
  assumes "savePreview e w userId session r = (g, w')"
  shows "sessions w' = sessions w \<and> chats w' = chats w \<and> chatMessages w' = chatMessages w \<and> agentLog w' = agentLog w
     \<and> users w' = users w \<and> goals w' = goals w \<and> tasks w' = tasks w \<and> milestones w' = milestones w
     \<and> (actionType r \<noteq> Some ''save_preview'' \<longrightarrow> w' = w \<and> g = s_goalPreviewId session)"
  using assms by (auto simp: savePreview_def upsertGoalPreview_def setGoalPreview_def Let_def split: option.splits if_splits prod.splits)


lemma validateMessage_Inr:
  assumes "validateMessage w req = Inr (userId, s, message, ctx)"
  shows "authenticated req = Some userId
       \<and> nonBlank (getProp ''sessionId'' (body req)) = Some (s_id s)
       \<and> nonBlank (getProp ''message'' (body req)) = Some message
       \<and> findSessionById w (s_id s) = Some s
       \<and> s_userId s = userId \<and> s_sessionActive s
       \<and> ctx = messageContext (getProp ''context'' (body req)) s"
  using assms
  by (auto simp: validateMessage_def findSessionById_def mapSession_def
           split: option.splits if_splits)

lemma findSessionById_fields:
  assumes "findSessionById w i = Some s"
  shows "\<exists>d. sessions w i = Some d \<and> s_id s = i \<and> s_userId s = s_userId d
           \<and> s_chatId s = s_chatId d \<and> s_state s = s_state d
           \<and> s_iteration s = s_iteration d \<and> s_goalPreviewId s = s_goalPreviewId d
           \<and> s_sessionActive s = s_sessionActive d \<and> s_context s = orEmpty (s_context d)"
  using assms by (auto simp: findSessionById_def mapSession_def)

lemma savePreview_saved:
  assumes "savePreview e w userId s r = (g, w')" and "actionType r = Some ''save_preview''"
  shows "\<exists>pid p. g = Some pid \<and> goalPreviews w' pid = Some p \<and> p_data p = previewPayload r
            \<and> p_updatedAt p = now e"
  using assms
  by (auto simp: savePreview_def upsertGoalPreview_def setGoalPreview_def mapPreview_def Let_def
           split: option.splits if_splits prod.splits)

lemma turn_success:
  assumes "sessionMessage e w req = (Inr resp, w')"
  shows "\<exists>userId s message ctx r s' w1 w2 g.
      validateMessage w req = Inr (userId, s, message, ctx)
    \<and> agentLog w' = agentLog w @ [(agentPayload userId s message ctx, HttpOk (Some r))]
    \<and> findSessionById w' (s_id s) = Some s'
    \<and> s_state s' = (case Option.bind (r_state r) as_state of None \<Rightarrow> s_state s | Some x \<Rightarrow> x)
    \<and> s_iteration s' =
        (case Option.bind (r_state r) as_iteration of None \<Rightarrow> s_iteration s + 1 | Some n \<Rightarrow> n)
    \<and> s_goalPreviewId s' =
        (case Option.bind (r_state r) as_goalPreviewId of None \<Rightarrow> g | Some x \<Rightarrow> Some x)
    \<and> s_sessionActive s' = nextSessionActive s r
    \<and> s_context s' = orEmpty (case nullish (r_context r) of None \<Rightarrow> ctx | Some c \<Rightarrow> c)
    \<and> savePreview e w1 userId s r = (g, w2)
    \<and> goalPreviews w1 = goalPreviews w \<and> goalPreviews w' = goalPreviews w2
    \<and> chatMessages w' = chatMessages w @
         [\<lparr>cm_chatId = s_chatId s, cm_sessionId = s_id s, cm_sender = User,
           cm_message = message, cm_createdAt = now e\<rparr>,
          \<lparr>cm_chatId = s_chatId s, cm_sessionId = s_id s, cm_sender = Agent,
           cm_message = r_reply r, cm_createdAt = now e\<rparr>]
    \<and> (\<forall>k. k \<noteq> s_id s \<longrightarrow> sessions w' k = sessions w k)
    \<and> mr_state resp = \<lparr>sv_state = s_state s', sv_iteration = s_iteration s',
                        sv_sessionActive = s_sessionActive s',
                        sv_goalPreviewId = s_goalPreviewId s'\<rparr>
    \<and> mr_action resp = r_action r \<and> mr_reply resp = r_reply r \<and> mr_sessionId resp = s_id s
    \<and> mr_context resp = s_context s'"
proof -
  from assms obtain userId s message ctx where
    v: "validateMessage w req = Inr (userId, s, message, ctx)"
    and t: "agentTurn e w userId s message ctx = (Inr resp, w')"
    by (auto simp: sessionMessage_def split: sum.splits)
  from t obtain u wa r wb where
    a1: "appendChatMessage e w \<lparr>ci_chatId = s_chatId s, ci_sessionId = s_id s, ci_sender = User,
              ci_message = message\<rparr> = (Inr u, wa)"
    and i: "invokeAgentService e wa (agentPayload userId s message ctx) = (Inr r, wb)"
    and c: "completeTurn e wb userId s ctx r = (Inr resp, w')"
    by (auto simp: agentTurn_def split: prod.splits sum.splits)
  from c obtain u' wc g wd s' where
    a2: "appendChatMessage e wb \<lparr>ci_chatId = s_chatId s, ci_sessionId = s_id s, ci_sender = Agent,
              ci_message = r_reply r\<rparr> = (Inr u', wc)"
    and sp: "savePreview e wc userId s r = (g, wd)"
    and us: "updateSession e wd (s_id s) (sessionUpdates s ctx g r) = (Inr s', w')"
    and resp: "resp = \<lparr>mr_sessionId = s_id s', mr_reply = r_reply r,
                          mr_action = r_action r,
                          mr_state = \<lparr>sv_state = s_state s',
                                       sv_iteration = s_iteration s',
                                       sv_sessionActive = s_sessionActive s',
                                       sv_goalPreviewId = s_goalPreviewId s'\<rparr>,
                          mr_context = s_context s'\<rparr>"
    by (auto simp: completeTurn_def split: prod.splits sum.splits)
  note A1 = appendChatMessage_Inr[OF a1]
  note I = invokeAgentService_Inr[OF i]
  note A2 = appendChatMessage_Inr[OF a2]
  note SP = savePreview_frame[OF sp]
  note US = updateSession_Inr[OF us]
  note V = validateMessage_Inr[OF v]
  show ?thesis
    apply (rule exI[of _ userId], rule exI[of _ s], rule exI[of _ message], rule exI[of _ ctx],
           rule exI[of _ r], rule exI[of _ s'], rule exI[of _ wc], rule exI[of _ wd], rule exI[of _ g])
    using A1 I A2 SP US V v sp resp
    by (auto simp: sessionUpdates_def findSessionById_def mapSession_def)
qed


lemma appendChatMessage_frame:
  assumes "appendChatMessage e w i = (res, w')"
  shows "goalPreviews w' = goalPreviews w \<and> agentLog w' = agentLog w
       \<and> (\<forall>k. k \<noteq> ci_sessionId i \<longrightarrow> sessions w' k = sessions w k)
       \<and> (\<forall>d. sessions w (ci_sessionId i) = Some d \<longrightarrow>
              sessions w' (ci_sessionId i) = Some d
            \<or> sessions w' (ci_sessionId i) = Some (d\<lparr>s_updatedAt := now e\<rparr>))"
  using assms by (auto simp: appendChatMessage_def Let_def split: option.splits)


lemma updateSession_frame:
  assumes "updateSession e w i up = (res, w')"
  shows "goalPreviews w' = goalPreviews w \<and> agentLog w' = agentLog w
       \<and> chatMessages w' = chatMessages w
       \<and> (\<forall>k. k \<noteq> i \<longrightarrow> sessions w' k = sessions w k)"
  using assms by (auto simp: updateSession_def Let_def split: option.splits)

lemma completeTurn_frame:
  assumes "completeTurn e w userId s ctx r = (res, w')"
  shows "agentLog w' = agentLog w \<and> (\<forall>k. k \<noteq> s_id s \<longrightarrow> sessions w' k = sessions w k)"
proof -
  obtain ra wa where a: "appendChatMessage e w \<lparr>ci_chatId = s_chatId s, ci_sessionId = s_id s,
       ci_sender = Agent, ci_message = r_reply r\<rparr> = (ra, wa)"
    by (cases "appendChatMessage e w \<lparr>ci_chatId = s_chatId s, ci_sessionId = s_id s,
       ci_sender = Agent, ci_message = r_reply r\<rparr>")
  obtain g wb where sp: "savePreview e wa userId s r = (g, wb)"
    by (cases "savePreview e wa userId s r")
  obtain ru wc where us: "updateSession e wb (s_id s) (sessionUpdates s ctx g r) = (ru, wc)"
    by (cases "updateSession e wb (s_id s) (sessionUpdates s ctx g r)")
  have "w' = wa \<or> w' = wc"
    using assms a sp us by (auto simp: completeTurn_def split: sum.splits)
  then show ?thesis
    using appendChatMessage_frame[OF a] savePreview_frame[OF sp] updateSession_frame[OF us]
    by auto
qed






lemma orEmpty_idem: "orEmpty (orEmpty v) = orEmpty v"
  by (simp add: orEmpty_def)

lemma orEmpty_messageContext: "orEmpty (messageContext v s) = messageContext v s"
  by (auto simp: messageContext_def orEmpty_def split: option.splits jval.splits)

lemma findSessionById_context: "findSessionById w i = Some s \<Longrightarrow> orEmpty (s_context s) = s_context s"
  using findSessionById_fields[of w i s] by (auto simp: orEmpty_idem)

lemma turn_logged:
  assumes run: "sessionMessage e w req = (Inr resp, w')"
    and log: "agentLog w' = agentLog w @ [(q, HttpOk (Some r))]"
    and prior: "findSessionById w (q_sessionId q) = Some s"
  shows "\<exists>s' w1 w2 g.
      findSessionById w' (q_sessionId q) = Some s'
    \<and> s_state s' = (case Option.bind (r_state r) as_state of None \<Rightarrow> s_state s | Some x \<Rightarrow> x)
    \<and> s_iteration s' =
        (case Option.bind (r_state r) as_iteration of None \<Rightarrow> s_iteration s + 1 | Some n \<Rightarrow> n)
    \<and> s_goalPreviewId s' =
        (case Option.bind (r_state r) as_goalPreviewId of None \<Rightarrow> g | Some x \<Rightarrow> Some x)
    \<and> s_sessionActive s' = nextSessionActive s r
    \<and> s_context s' =
        (case nullish (r_context r) of
           None \<Rightarrow> messageContext (getProp ''context'' (body req)) s
         | Some c \<Rightarrow> orEmpty c)
    \<and> savePreview e w1 (q_userId q) s r = (g, w2)
    \<and> goalPreviews w1 = goalPreviews w \<and> goalPreviews w' = goalPreviews w2
    \<and> sv_iteration (mr_state resp) = s_iteration s'
    \<and> sv_sessionActive (mr_state resp) = s_sessionActive s'
    \<and> s_sessionActive s"
proof -
  from turn_success[OF run] obtain userId s0 message ctx r0 s' w1 w2 g where
    v: "validateMessage w req = Inr (userId, s0, message, ctx)"
    and log0: "agentLog w' = agentLog w @ [(agentPayload userId s0 message ctx, HttpOk (Some r0))]"
    and s': "findSessionById w' (s_id s0) = Some s'"
    and f: "s_state s' = (case Option.bind (r_state r0) as_state of None \<Rightarrow> s_state s0 | Some x \<Rightarrow> x)"
       "s_iteration s' =
        (case Option.bind (r_state r0) as_iteration of None \<Rightarrow> s_iteration s0 + 1 | Some n \<Rightarrow> n)"
       "s_goalPreviewId s' =
        (case Option.bind (r_state r0) as_goalPreviewId of None \<Rightarrow> g | Some x \<Rightarrow> Some x)"
       "s_sessionActive s' = nextSessionActive s0 r0"
       "s_context s' = orEmpty (case nullish (r_context r0) of None \<Rightarrow> ctx | Some c \<Rightarrow> c)"
    and sp: "savePreview e w1 userId s0 r0 = (g, w2)"
    and gp: "goalPreviews w1 = goalPreviews w" "goalPreviews w' = goalPreviews w2"
    and st: "mr_state resp = \<lparr>sv_state = s_state s', sv_iteration = s_iteration s',
                        sv_sessionActive = s_sessionActive s',
                        sv_goalPreviewId = s_goalPreviewId s'\<rparr>"
    by blast
  from log log0 have q: "q = agentPayload userId s0 message ctx" and r: "r0 = r" by auto
  note V = validateMessage_Inr[OF v]
  have sid: "q_sessionId q = s_id s0" and uid: "q_userId q = userId"
    by (simp_all add: q agentPayload_def)
  have s0: "s0 = s" using V prior sid by simp
  have ctx: "s_context s' =
        (case nullish (r_context r) of
           None \<Rightarrow> messageContext (getProp ''context'' (body req)) s
         | Some c \<Rightarrow> orEmpty c)"
    using f(5) V r s0 by (simp add: orEmpty_messageContext split: option.splits)
  show ?thesis
    apply (rule exI[of _ s'], rule exI[of _ w1], rule exI[of _ w2], rule exI[of _ g])
    using s' f sp gp st ctx V unfolding sid uid r s0 by simp
qed



lemma validateMessage_inactive:
  assumes "getProp ''sessionId'' (body req) = Some (JStr sid)"
    and "findSessionById w sid = Some s" and "\<not> s_sessionActive s"
  shows "isl (validateMessage w req)"
    and "authenticated req = Some (s_userId s) \<Longrightarrow> trim sid \<noteq> []
         \<Longrightarrow> nonBlank (getProp ''message'' (body req)) \<noteq> None
         \<Longrightarrow> getProp ''userId'' (body req) = None
               \<or> getProp ''userId'' (body req) = Some (JStr (s_userId s))
         \<Longrightarrow> validateMessage w req = Inl (sessionFinalized sid)"
  using assms
  by (auto simp: validateMessage_def nonBlank_def asString_def split: option.splits if_splits)

lemma mapSession_updatedAt:
  "mapSession i (d\<lparr>s_updatedAt := t\<rparr>) = (mapSession i d)\<lparr>s_updatedAt := t\<rparr>"
  by (simp add: mapSession_def)

lemma invokeAgentService_cases:
  assumes "invokeAgentService e w q = (res, w')"
  shows "(w' = w \<and> isl res)
       \<or> (w' = w\<lparr>agentLog := agentLog w @ [(q, fetch e q)]\<rparr>
           \<and> (agentCallFailed (fetch e q) \<longrightarrow> isl res
                 \<and> statusOf (projl res)
                    = (case fetch e q of HttpError st txt \<Rightarrow> st | _ \<Rightarrow> 503))
           \<and> (\<forall>r. fetch e q = HttpOk (Some r) \<longrightarrow> res = Inr r))"
  using assms
  by (auto simp: invokeAgentService_def agentUnavailable_def Let_def
           split: option.splits fetch_result.splits if_splits)

lemma failed_turn:
  assumes run: "sessionMessage e w req = (res, w')"
    and log: "agentLog w' = agentLog w @ [(q, answer)]"
    and failed: "agentCallFailed answer"
  shows "\<exists>s d c. findSessionById w (q_sessionId q) = Some s
      \<and> sessions w (q_sessionId q) = Some d \<and> chats w (s_chatId s) = Some c
      \<and> isl res
      \<and> statusOf (projl res) = (case answer of HttpError st txt \<Rightarrow> st | _ \<Rightarrow> 503)
      \<and> w' = w\<lparr>chatMessages := chatMessages w @
                 [\<lparr>cm_chatId = s_chatId s, cm_sessionId = q_sessionId q,
                   cm_sender = User, cm_message = q_message q,
                   cm_createdAt = now e\<rparr>],
               chats := (chats w)(s_chatId s \<mapsto> c\<lparr>c_updatedAt := now e\<rparr>),
               sessions := (sessions w)(q_sessionId q \<mapsto> d\<lparr>s_updatedAt := now e\<rparr>),
               agentLog := agentLog w @ [(q, answer)]\<rparr>"
proof (cases "validateMessage w req")
  case (Inl err)
  then have "w' = w" using run by (simp add: sessionMessage_def)
  with log show ?thesis by simp
next
  case (Inr v)
  obtain userId s message ctx where v: "v = (userId, s, message, ctx)" by (cases v) auto
  note V = validateMessage_Inr[OF Inr[unfolded v]]
  have t: "agentTurn e w userId s message ctx = (res, w')"
    using run Inr v by (simp add: sessionMessage_def)
  let ?in = "\<lparr>ci_chatId = s_chatId s, ci_sessionId = s_id s, ci_sender = User,
              ci_message = message\<rparr>"
  let ?q = "agentPayload userId s message ctx"
  obtain ra wa where a: "appendChatMessage e w ?in = (ra, wa)"
    by (cases "appendChatMessage e w ?in")
  show ?thesis
  proof (cases ra)
    case (Inl err)
    then have "w' = wa" using t a by (simp add: agentTurn_def)
    with appendChatMessage_frame[OF a] log show ?thesis by simp
  next
    case ok: (Inr u)
    note A = appendChatMessage_Inr[OF a[unfolded ok]]
    obtain ri wb where i: "invokeAgentService e wa ?q = (ri, wb)"
      by (cases "invokeAgentService e wa ?q")
    have la: "agentLog wa = agentLog w" using appendChatMessage_frame[OF a] by simp
    from invokeAgentService_cases[OF i]
    show ?thesis
    proof (elim disjE conjE)
      assume "wb = wa" "isl ri"
      then have "w' = wa" using t a ok i by (auto simp: agentTurn_def split: sum.splits)
      with la log show ?thesis by simp
    next
      assume wb: "wb = wa\<lparr>agentLog := agentLog wa @ [(?q, fetch e ?q)]\<rparr>"
        and f: "agentCallFailed (fetch e ?q) \<longrightarrow> isl ri
                 \<and> statusOf (projl ri)
                    = (case fetch e ?q of HttpError st txt \<Rightarrow> st | _ \<Rightarrow> 503)"
        and g: "\<forall>r. fetch e ?q = HttpOk (Some r) \<longrightarrow> ri = Inr r"
      have lw': "agentLog w' = agentLog wb"
      proof (cases ri)
        case (Inl err)
        then show ?thesis using t a ok i by (simp add: agentTurn_def)
      next
        case (Inr r)
        then have "completeTurn e wb userId s ctx r = (res, w')"
          using t a ok i by (simp add: agentTurn_def)
        from completeTurn_frame[OF this] show ?thesis by simp
      qed
      with wb la log have q: "q = ?q" and ans: "answer = fetch e ?q" by auto
      from f failed ans have ri: "isl ri"
        and status: "statusOf (projl ri) = (case answer of HttpError st txt \<Rightarrow> st | _ \<Rightarrow> 503)"
        by auto
      then have res: "isl res" "projl res = projl ri" "w' = wb"
        using t a ok i by (auto simp: agentTurn_def split: sum.splits)
      have sid: "q_sessionId q = s_id s" "q_message q = message"
        by (simp_all add: q agentPayload_def)
      from A obtain c d where
        c: "chats w (s_chatId s) = Some c" and d: "sessions w (s_id s) = Some d"
        and wa: "wa = w\<lparr>chatMessages := chatMessages w @
                 [\<lparr>cm_chatId = s_chatId s, cm_sessionId = s_id s,
                   cm_sender = User, cm_message = message,
                   cm_createdAt = now e\<rparr>],
               chats := (chats w)(s_chatId s \<mapsto> c\<lparr>c_updatedAt := now e\<rparr>),
               sessions := (sessions w)(s_id s \<mapsto> d\<lparr>s_updatedAt := now e\<rparr>)\<rparr>"
        by auto
      show ?thesis
        apply (rule exI[of _ s], rule exI[of _ d], rule exI[of _ c])
        using V c d ri status res wb wa ans q unfolding sid by simp
    qed
  qed
qed

lemma listGoals_active: "listGoals w userId (Some Active) = activeGoalsOf w userId"
  by (simp add: listGoals_def activeGoalsOf_def)

lemma sumActiveGoalHours_all:
  "sumActiveGoalHours w userId None = sum_list (map g_minHoursPerWeek (activeGoalsOf w userId))"
  by (simp add: sumActiveGoalHours_def listGoals_active)

lemma collectActiveGoalSummaries_all:
  "collectActiveGoalSummaries w userId None = map summaryOf (activeGoalsOf w userId)"
  by (simp add: collectActiveGoalSummaries_def listGoals_active summaryOf_def)

lemma postGoals_checked:
  assumes "authenticated req = Some uid" and "findUserById w uid = Some usr"
    and "validateGoalBody req = Inr input"
  shows "postGoals e w req =
     (if activeHours w uid + cg_minHoursPerWeek input > u_availableHoursPerWeek usr
      then (Inl (goalBudgetExceeded w usr uid (activeHours w uid + cg_minHoursPerWeek input)), w)
      else (Inr (201, fst (createGoal e w (input\<lparr>cg_userId := uid\<rparr>))),
            snd (createGoal e w (input\<lparr>cg_userId := uid\<rparr>))))"
  using assms
  by (simp add: postGoals_def Let_def sumActiveGoalHours_all activeHours_def split: prod.splits)

lemma postGoals_failure_keeps_store:
  "isl (fst (postGoals e w req)) \<Longrightarrow> snd (postGoals e w req) = w"
  by (auto simp: postGoals_def Let_def split: option.splits sum.splits prod.splits if_splits)

lemma findUserById_Some:
  "findUserById w i = Some usr \<Longrightarrow> \<exists>d. users w i = Some d"
  by (auto simp: findUserById_def)

lemma validateMeBody_hours:
  assumes "\<not> isl (optionalTitle [S ''Invalid name.''] (getProp ''name'' (body req)))"
    and "\<not> isl (optionalTitle [S ''Invalid timezone format.''] (getProp ''timezone'' (body req)))"
    and "\<not> isl (optionalText [S ''profileImageUrl must be a string or null.'']
                   (getProp ''profileImageUrl'' (body req)))"
    and "getProp ''availableHoursPerWeek'' (body req) = Some (JNum h)"
    and "0 \<le> h" and "h \<le> 168"
  shows "h < activeHours w uid \<Longrightarrow>
           validateMeBody w uid req = Inl (meBudgetExceeded w uid h (activeHours w uid))"
    and "\<not> h < activeHours w uid \<Longrightarrow>
           \<exists>updates. validateMeBody w uid req = Inr updates
                    \<and> uu_availableHoursPerWeek updates = Some h"
  using assms
  by (auto simp: validateMeBody_def validateAvailableHours_def bindE_def asFinite_def
        MAX_AVAILABLE_HOURS_def sumActiveGoalHours_all activeHours_def Let_def
        split: sum.splits)

lemma patchMe_failure_keeps_store:
  "isl (fst (patchMe e w req)) \<Longrightarrow> snd (patchMe e w req) = w"
  by (auto simp: patchMe_def updateUser_def Let_def findUserById_def
           split: option.splits sum.splits prod.splits if_splits)

lemma ensureNoTaskConflict_colliding:
  "ensureNoTaskConflict w milestoneId userId date excludeTaskId =
     (if colliding w milestoneId userId date excludeTaskId \<noteq> []
      then Inl (ApiError 409
                [S ''Task date conflicts with an existing scheduled task or calendar event.'']
                (ConflictDetails (map t_id (colliding w milestoneId userId date excludeTaskId))))
      else Inr ())"
proof -
  have "filter (\<lambda>t. Some (t_id t) \<noteq> excludeTaskId \<and> t_userId t = userId \<and> t_date t = date)
          (listTasksByMilestone w milestoneId)
        = colliding w milestoneId userId date excludeTaskId"
    unfolding listTasksByMilestone_def colliding_def filter_filter
    by (rule filter_cong) auto
  then show ?thesis
    by (simp add: ensureNoTaskConflict_def Let_def)
qed

lemma find_id:
  "find (\<lambda>x. t_id x = i) xs = Some t \<Longrightarrow> t_id t = i"
  by (induction xs) (auto split: if_splits)

lemma find_map_update:
  assumes "\<And>x. t_id (f x) = t_id x"
  shows "find (\<lambda>x. t_id x = i) (map (\<lambda>x. if t_id x = i then f x else x) xs)
         = map_option f (find (\<lambda>x. t_id x = i) xs)"
  using assms by (induction xs) auto

lemma postTask_checked:
  assumes "authenticated req = Some uid" and "assertOwnedMilestone w (param req) uid = Inr m"
    and "validateTaskBody e req = Inr input"
  shows "postTask e w req =
     (if colliding w (m_id m) uid (ct_date input) None \<noteq> []
      then (Inl (ApiError 409
                [S ''Task date conflicts with an existing scheduled task or calendar event.'']
                (ConflictDetails (map t_id (colliding w (m_id m) uid (ct_date input) None)))), w)
      else (Inr (201, fst (createTask e w (input\<lparr>ct_goalId := m_goalId m,
                        ct_milestoneId := m_id m, ct_userId := uid\<rparr>))),
            snd (createTask e w (input\<lparr>ct_goalId := m_goalId m,
                        ct_milestoneId := m_id m, ct_userId := uid\<rparr>))))"
  using assms
  by (simp add: postTask_def ensureNoTaskConflict_colliding split: prod.splits)

lemma validateTaskRest_status:
  "validateTaskRest req = Inl err \<Longrightarrow> statusOf err = 400"
  by (auto simp: validateTaskRest_def validateEstimatedHours_def bindE_def
           split: option.splits sum.splits if_splits jval.splits)

lemma validateTaskPatch_date:
  assumes "\<not> isl (optionalTitle [S ''Invalid title.''] (getProp ''title'' (body req)))"
    and "\<not> isl (optionalText [S ''description must be a string or null.'']
                   (getProp ''description'' (body req)))"
    and "getProp ''date'' (body req) = Some v" and "validateIsoDate e (Some v) = Inr d"
  shows "colliding w (m_id m) uid d (Some (t_id t)) \<noteq> [] \<Longrightarrow>
           validateTaskPatch e w uid t m req =
             Inl (ApiError 409
                [S ''Task date conflicts with an existing scheduled task or calendar event.'']
                (ConflictDetails (map t_id (colliding w (m_id m) uid d (Some (t_id t))))))"
    and "colliding w (m_id m) uid d (Some (t_id t)) = [] \<Longrightarrow>
           validateTaskRest req = Inl err \<Longrightarrow> validateTaskPatch e w uid t m req = Inl err"
    and "colliding w (m_id m) uid d (Some (t_id t)) = [] \<Longrightarrow>
           validateTaskRest req = Inr rest \<Longrightarrow>
           \<exists>updates. validateTaskPatch e w uid t m req = Inr updates \<and> ut_date updates = Some d"
  using assms
  by (auto simp: validateTaskPatch_def validateTaskDate_def bindE_def
        ensureNoTaskConflict_colliding split: sum.splits prod.splits)

lemma assertOwnedTask_Inr:
  "assertOwnedTask w i uid = Inr (t, m) \<Longrightarrow> getTaskById w i = Some t \<and> t_id t = i"
  by (auto simp: assertOwnedTask_def bindE_def getTaskById_def dest: find_id
           split: option.splits sum.splits)

lemma updateTask_date:
  assumes "getTaskById w i = Some t" and "ut_date updates = Some d"
  shows "\<exists>t'. fst (updateTask e w i updates) = Inr t'
            \<and> t_date t' = d \<and> getTaskById (snd (updateTask e w i updates)) i = Some t'"
proof -
  have id: "\<And>x. t_id (applyTaskUpdates e updates x) = t_id x"
    by (simp add: applyTaskUpdates_def)
  show ?thesis
    using assms find_map_update[of "applyTaskUpdates e updates" i "tasks w", OF id]
    by (simp add: updateTask_def getTaskById_def applyTaskUpdates_def)
qed


section \<open>The finalize override\<close>

text \<open>
  C3. After a successful agent turn whose action type is \<^verbatim>\<open>finalize_goal\<close>, the persisted
  session is inactive, and so is the state of the response, whatever \<open>sessionActive\<close> the
  agent's own state payload carries; the goal previews are those from before the turn.
  The agent's answer \<open>r\<close> is the one the turn added to the record of agent exchanges.
\<close>

theorem finalize_goal_forces_inactive:
  assumes "sessionMessage e w req = (Inr resp, w')"
    and "agentLog w' = agentLog w @ [(q, HttpOk (Some r))]"
    and "actionType r = Some ''finalize_goal''"
  shows "(\<exists>s'. findSessionById w' (q_sessionId q) = Some s' \<and> \<not> s_sessionActive s')
       \<and> \<not> sv_sessionActive (mr_state resp)
       \<and> goalPreviews w' = goalPreviews w"
proof -
  from turn_success[OF assms(1)] obtain userId s message ctx r0 s' w1 w2 g where
    log: "agentLog w' = agentLog w @ [(agentPayload userId s message ctx, HttpOk (Some r0))]"
    and s': "findSessionById w' (s_id s) = Some s'"
    and act: "s_sessionActive s' = nextSessionActive s r0"
    and sp: "savePreview e w1 userId s r0 = (g, w2)"
    and gp: "goalPreviews w1 = goalPreviews w" "goalPreviews w' = goalPreviews w2"
    and st: "mr_state resp = \<lparr>sv_state = s_state s', sv_iteration = s_iteration s',
                        sv_sessionActive = s_sessionActive s',
                        sv_goalPreviewId = s_goalPreviewId s'\<rparr>"
    by blast
  from log assms(2) have q: "q = agentPayload userId s message ctx" and r: "r0 = r" by auto
  have sid: "q_sessionId q = s_id s" by (simp add: q agentPayload_def)
  have inactive: "\<not> s_sessionActive s'"
    using act assms(3) r by (simp add: nextSessionActive_def)
  have "w2 = w1"
    using savePreview_frame[OF sp] assms(3) r by simp
  with gp have "goalPreviews w' = goalPreviews w" by simp
  with s' sid inactive st show ?thesis by simp
qed

theorem finalize_goal_forces_inactive_witness:
  "\<not> isl (fst (sessionMessage (sampleEnv (HttpOk (Some finalizeReply))) sampleWorld (sampleMessage [])))
   \<and> Option.bind (r_state finalizeReply) as_sessionActive = Some True
   \<and> actionType finalizeReply = Some ''finalize_goal''
   \<and> (\<exists>s'. findSessionById
              (snd (sessionMessage (sampleEnv (HttpOk (Some finalizeReply))) sampleWorld
                      (sampleMessage []))) ''s1'' = Some s'
            \<and> \<not> s_sessionActive s')
   \<and> \<not> sv_sessionActive (mr_state (projr (fst
          (sessionMessage (sampleEnv (HttpOk (Some finalizeReply))) sampleWorld
             (sampleMessage [])))))
   \<and> goalPreviews (snd (sessionMessage (sampleEnv (HttpOk (Some finalizeReply))) sampleWorld
                           (sampleMessage []))) = goalPreviews sampleWorld"
proof -
  let ?run = "sessionMessage (sampleEnv (HttpOk (Some finalizeReply))) sampleWorld (sampleMessage [])"
  let ?q = "agentPayload ''u1'' sampleSession ''Looks good'' (s_context sampleSession)"
  have ok: "\<not> isl (fst ?run)"
    by (simp add: sample_defs message_defs finalizeReply_def Let_def)
  then have run: "?run = (Inr (projr (fst ?run)), snd ?run)"
    by (metis prod.collapse sum.collapse(2))
  have log: "agentLog (snd ?run) = agentLog sampleWorld @ [(?q, HttpOk (Some finalizeReply))]"
    by (simp add: sample_defs message_defs finalizeReply_def Let_def)
  have act: "actionType finalizeReply = Some ''finalize_goal''"
    by (simp add: actionType_def finalizeReply_def)
  have sid: "q_sessionId ?q = ''s1''"
    by (simp add: agentPayload_def sampleSession_def)
  have "Option.bind (r_state finalizeReply) as_sessionActive = Some True"
    by (simp add: finalizeReply_def)
  with finalize_goal_forces_inactive[OF run log act] ok act sid show ?thesis
    by simp
qed



section \<open>Fields the agent leaves out\<close>

text \<open>
  C4, as stated, fails: not every field the agent omits is held over from the prior
  session. With a \<open>context\<close> in the request body and none in the agent's answer,
  the persisted context is the one of the request, not the prior session's. With a
  \<^verbatim>\<open>finalize_goal\<close> action and no state payload, the session that was active is persisted
  inactive.
\<close>

theorem omitted_fields_counterexample:
  "\<not> isl (fst (sessionMessage (sampleEnv (HttpOk (Some bareReply))) sampleWorld
                  (sampleMessage [(''context'', JObj [(''focus'', JStr ''testing'')])])))
   \<and> r_context bareReply = None
   \<and> map_option s_context (findSessionById sampleWorld ''s1'')
       = Some (JObj [(''availableHoursLeft'', JNum 10)])
   \<and> map_option s_context
        (findSessionById
           (snd (sessionMessage (sampleEnv (HttpOk (Some bareReply))) sampleWorld
                   (sampleMessage [(''context'', JObj [(''focus'', JStr ''testing'')])])))
           ''s1'')
       = Some (JObj [(''focus'', JStr ''testing'')])
   \<and> \<not> isl (fst (sessionMessage (sampleEnv (HttpOk (Some finalizeBare))) sampleWorld
                    (sampleMessage [])))
   \<and> r_state finalizeBare = None
   \<and> map_option s_sessionActive (findSessionById sampleWorld ''s1'') = Some True
   \<and> map_option s_sessionActive
        (findSessionById
           (snd (sessionMessage (sampleEnv (HttpOk (Some finalizeBare))) sampleWorld
                   (sampleMessage [])))
           ''s1'')
       = Some False"
  by (simp add: sample_defs message_defs bareReply_def finalizeBare_def Let_def)


text \<open>
  C4, as amended. After a successful agent turn: an omitted iteration gives the previous
  iteration plus one; an omitted state keeps the prior state; an omitted context (absent
  or \<^verbatim>\<open>null\<close>) gives the \<open>context\<close> of the request body when that is an object or an
  array, and the prior session's context otherwise, in particular when the body has
  none; an omitted goalPreviewId keeps the prior one, or is the id of the preview saved by
  this turn when the action is \<^verbatim>\<open>save_preview\<close>; an omitted sessionActive keeps the prior
  value unless the action is \<^verbatim>\<open>finalize_goal\<close>, which makes it false.
\<close>

theorem omitted_fields_fall_back:
  assumes "sessionMessage e w req = (Inr resp, w')"
    and "agentLog w' = agentLog w @ [(q, HttpOk (Some r))]"
    and "findSessionById w (q_sessionId q) = Some s"
  shows "\<exists>s'. findSessionById w' (q_sessionId q) = Some s'
    \<and> (Option.bind (r_state r) as_iteration = None \<longrightarrow> s_iteration s' = s_iteration s + 1)
    \<and> (Option.bind (r_state r) as_state = None \<longrightarrow> s_state s' = s_state s)
    \<and> ((r_context r = None \<or> r_context r = Some JNull)
          \<and> getProp ''context'' (body req) = Some (JObj kvs) \<longrightarrow>
          s_context s' = JObj kvs)
    \<and> ((r_context r = None \<or> r_context r = Some JNull)
          \<and> getProp ''context'' (body req) = Some (JArr xs) \<longrightarrow>
          s_context s' = JArr xs)
    \<and> ((r_context r = None \<or> r_context r = Some JNull)
          \<and> (\<forall>fields. getProp ''context'' (body req) \<noteq> Some (JObj fields))
          \<and> (\<forall>items. getProp ''context'' (body req) \<noteq> Some (JArr items)) \<longrightarrow>
          s_context s' = s_context s)
    \<and> (Option.bind (r_state r) as_goalPreviewId = None
          \<and> actionType r \<noteq> Some ''save_preview'' \<longrightarrow>
          s_goalPreviewId s' = s_goalPreviewId s)
    \<and> (Option.bind (r_state r) as_goalPreviewId = None
          \<and> actionType r = Some ''save_preview'' \<longrightarrow>
          (\<exists>pid p. s_goalPreviewId s' = Some pid \<and> goalPreviews w' pid = Some p
                   \<and> p_data p = previewPayload r \<and> p_updatedAt p = now e))
    \<and> (Option.bind (r_state r) as_sessionActive = None \<longrightarrow>
          s_sessionActive s' = (s_sessionActive s \<and> actionType r \<noteq> Some ''finalize_goal''))"
proof -
  from turn_logged[OF assms] obtain s' w1 w2 g where
    s': "findSessionById w' (q_sessionId q) = Some s'"
    and st: "s_state s' = (case Option.bind (r_state r) as_state of None \<Rightarrow> s_state s | Some x \<Rightarrow> x)"
    and it: "s_iteration s' =
        (case Option.bind (r_state r) as_iteration of None \<Rightarrow> s_iteration s + 1 | Some n \<Rightarrow> n)"
    and gid: "s_goalPreviewId s' =
        (case Option.bind (r_state r) as_goalPreviewId of None \<Rightarrow> g | Some x \<Rightarrow> Some x)"
    and act: "s_sessionActive s' = nextSessionActive s r"
    and ctx: "s_context s' =
        (case nullish (r_context r) of
           None \<Rightarrow> messageContext (getProp ''context'' (body req)) s
         | Some c \<Rightarrow> orEmpty c)"
    and sp: "savePreview e w1 (q_userId q) s r = (g, w2)"
    and gp: "goalPreviews w1 = goalPreviews w" "goalPreviews w' = goalPreviews w2"
    by blast
  have omitted: "r_context r = None \<or> r_context r = Some JNull \<Longrightarrow> nullish (r_context r) = None"
    by (auto simp: nullish_def)
  have keepc: "(\<forall>fields. getProp ''context'' (body req) \<noteq> Some (JObj fields))
          \<and> (\<forall>items. getProp ''context'' (body req) \<noteq> Some (JArr items))
       \<Longrightarrow> messageContext (getProp ''context'' (body req)) s = s_context s"
    using findSessionById_context[OF assms(3)]
    by (auto simp: messageContext_def split: option.splits jval.splits)
  have c1: "(r_context r = None \<or> r_context r = Some JNull)
          \<and> getProp ''context'' (body req) = Some (JObj kvs) \<longrightarrow> s_context s' = JObj kvs"
    using ctx omitted by (auto simp: messageContext_def)
  have c2: "(r_context r = None \<or> r_context r = Some JNull)
          \<and> getProp ''context'' (body req) = Some (JArr xs) \<longrightarrow> s_context s' = JArr xs"
    using ctx omitted by (auto simp: messageContext_def)
  have c3: "(r_context r = None \<or> r_context r = Some JNull)
          \<and> (\<forall>fields. getProp ''context'' (body req) \<noteq> Some (JObj fields))
          \<and> (\<forall>items. getProp ''context'' (body req) \<noteq> Some (JArr items)) \<longrightarrow>
          s_context s' = s_context s"
    using ctx omitted keepc by auto
  have keep: "actionType r \<noteq> Some ''save_preview'' \<Longrightarrow> g = s_goalPreviewId s"
    using savePreview_frame[OF sp] by simp
  have saved: "actionType r = Some ''save_preview'' \<Longrightarrow>
      \<exists>pid p. g = Some pid \<and> goalPreviews w' pid = Some p \<and> p_data p = previewPayload r
            \<and> p_updatedAt p = now e"
    using savePreview_saved[OF sp] gp by simp
  have a: "Option.bind (r_state r) as_sessionActive = None \<Longrightarrow>
      s_sessionActive s' = (s_sessionActive s \<and> actionType r \<noteq> Some ''finalize_goal'')"
    using act by (simp add: nextSessionActive_def)
  show ?thesis
    apply (rule exI[of _ s'])
    using s' st it gid c1 c2 c3 keep saved a by auto
qed

theorem omitted_fields_fall_back_witness:
  "\<not> isl (fst (sessionMessage (sampleEnv (HttpOk (Some saveReply))) sampleWorld (sampleMessage [])))
   \<and> findSessionById sampleWorld ''s1'' = Some sampleSession
   \<and> Option.bind (r_state saveReply) as_iteration = None
   \<and> actionType saveReply = Some ''save_preview''
   \<and> (\<exists>s'. findSessionById
              (snd (sessionMessage (sampleEnv (HttpOk (Some saveReply))) sampleWorld
                      (sampleMessage []))) ''s1'' = Some s'
          \<and> s_iteration s' = 6
          \<and> s_context s' = s_context sampleSession
          \<and> s_sessionActive s'
          \<and> (\<exists>pid p. s_goalPreviewId s' = Some pid
                \<and> goalPreviews
                     (snd (sessionMessage (sampleEnv (HttpOk (Some saveReply))) sampleWorld
                             (sampleMessage []))) pid = Some p
                \<and> p_data p = JObj [(''title'', JStr ''Portfolio'')]))
   \<and> \<not> isl (fst (sessionMessage (sampleEnv (HttpOk (Some bareReply))) sampleWorld
                    (sampleMessage [(''context'', JObj [(''focus'', JStr ''testing'')])])))
   \<and> r_context bareReply = None
   \<and> (\<exists>s'. findSessionById
              (snd (sessionMessage (sampleEnv (HttpOk (Some bareReply))) sampleWorld
                      (sampleMessage [(''context'', JObj [(''focus'', JStr ''testing'')])])))
              ''s1'' = Some s'
          \<and> s_context s' = JObj [(''focus'', JStr ''testing'')]
          \<and> s_state s' = s_state sampleSession
          \<and> s_goalPreviewId s' = s_goalPreviewId sampleSession)"
proof -
  let ?run = "sessionMessage (sampleEnv (HttpOk (Some saveReply))) sampleWorld (sampleMessage [])"
  let ?q = "agentPayload ''u1'' sampleSession ''Looks good'' (s_context sampleSession)"
  let ?req2 = "sampleMessage [(''context'', JObj [(''focus'', JStr ''testing'')])]"
  let ?run2 = "sessionMessage (sampleEnv (HttpOk (Some bareReply))) sampleWorld ?req2"
  let ?q2 = "agentPayload ''u1'' sampleSession ''Looks good'' (JObj [(''focus'', JStr ''testing'')])"
  have ok: "\<not> isl (fst ?run)"
    by (simp add: sample_defs message_defs saveReply_def Let_def)
  then have run: "?run = (Inr (projr (fst ?run)), snd ?run)"
    by (metis prod.collapse sum.collapse(2))
  have log: "agentLog (snd ?run) = agentLog sampleWorld @ [(?q, HttpOk (Some saveReply))]"
    by (simp add: sample_defs message_defs saveReply_def Let_def)
  have prior: "findSessionById sampleWorld (q_sessionId ?q) = Some sampleSession"
    by (simp add: sample_defs message_defs)
  have sid: "q_sessionId ?q = ''s1''"
    by (simp add: agentPayload_def sampleSession_def)
  have facts: "Option.bind (r_state saveReply) as_iteration = None"
    "actionType saveReply = Some ''save_preview''"
    "r_context saveReply = None"
    "Option.bind (r_state saveReply) as_goalPreviewId = None"
    "Option.bind (r_state saveReply) as_sessionActive = None"
    "getProp ''context'' (body (sampleMessage [])) = None"
    "previewPayload saveReply = JObj [(''title'', JStr ''Portfolio'')]"
    "s_iteration sampleSession = 5" "s_sessionActive sampleSession"
    by (simp_all add: saveReply_def actionType_def nullish_def sampleMessage_def getProp_def
          previewPayload_def sampleSession_def)
  have first: "\<exists>s'. findSessionById (snd ?run) ''s1'' = Some s'
          \<and> s_iteration s' = 6
          \<and> s_context s' = s_context sampleSession
          \<and> s_sessionActive s'
          \<and> (\<exists>pid p. s_goalPreviewId s' = Some pid
                \<and> goalPreviews (snd ?run) pid = Some p
                \<and> p_data p = JObj [(''title'', JStr ''Portfolio'')])"
    using omitted_fields_fall_back[OF run log prior] facts unfolding sid by auto
  have ok2: "\<not> isl (fst ?run2)"
    by (simp add: sample_defs message_defs bareReply_def Let_def)
  then have run2: "?run2 = (Inr (projr (fst ?run2)), snd ?run2)"
    by (metis prod.collapse sum.collapse(2))
  have log2: "agentLog (snd ?run2) = agentLog sampleWorld @ [(?q2, HttpOk (Some bareReply))]"
    by (simp add: sample_defs message_defs bareReply_def Let_def)
  have prior2: "findSessionById sampleWorld (q_sessionId ?q2) = Some sampleSession"
    by (simp add: sample_defs message_defs)
  have sid2: "q_sessionId ?q2 = ''s1''"
    by (simp add: agentPayload_def sampleSession_def)
  have facts2: "r_context bareReply = None"
    "Option.bind (r_state bareReply) as_state = None"
    "Option.bind (r_state bareReply) as_goalPreviewId = None"
    "actionType bareReply \<noteq> Some ''save_preview''"
    "getProp ''context'' (body ?req2) = Some (JObj [(''focus'', JStr ''testing'')])"
    by (simp_all add: bareReply_def actionType_def sampleMessage_def getProp_def)
  have second: "\<exists>s'. findSessionById (snd ?run2) ''s1'' = Some s'
          \<and> s_context s' = JObj [(''focus'', JStr ''testing'')]
          \<and> s_state s' = s_state sampleSession
          \<and> s_goalPreviewId s' = s_goalPreviewId sampleSession"
    using omitted_fields_fall_back[OF run2 log2 prior2,
            where kvs = "[(''focus'', JStr ''testing'')]"] facts2
    unfolding sid2 by auto
  from first second ok ok2 prior facts(1,2) facts2(1) show ?thesis
    unfolding sid by blast
qed

section \<open>The iteration counter\<close>

text \<open>
  C5, as stated, fails: the iteration counter can decrease, since the handler stores
  whatever iteration the agent supplies. Here the session is at iteration 5 and the agent answers with iteration 0.
\<close>

theorem iteration_counterexample:
  "\<not> isl (fst (sessionMessage (sampleEnv (HttpOk (Some resetReply))) sampleWorld (sampleMessage [])))
   \<and> map_option s_iteration (findSessionById sampleWorld ''s1'') = Some 5
   \<and> map_option s_iteration
        (findSessionById
           (snd (sessionMessage (sampleEnv (HttpOk (Some resetReply))) sampleWorld
                   (sampleMessage [])))
           ''s1'')
       = Some 0"
  by (simp add: sample_defs message_defs resetReply_def Let_def)


text \<open>
  C5, as amended. After a successful agent turn the iteration of the session is the one
  the agent supplied, or the previous iteration plus one when the agent supplied none;
  so it is at least the previous iteration whenever the agent omits it or supplies a value
  that is not below the previous one.
\<close>

theorem iteration_after_turn:
  assumes "sessionMessage e w req = (Inr resp, w')"
    and "agentLog w' = agentLog w @ [(q, HttpOk (Some r))]"
    and "findSessionById w (q_sessionId q) = Some s"
  shows "\<exists>s'. findSessionById w' (q_sessionId q) = Some s'
    \<and> s_iteration s' =
        (case Option.bind (r_state r) as_iteration of None \<Rightarrow> s_iteration s + 1 | Some n \<Rightarrow> n)
    \<and> sv_iteration (mr_state resp) = s_iteration s'
    \<and> ((Option.bind (r_state r) as_iteration = None
         \<or> (\<exists>n. Option.bind (r_state r) as_iteration = Some n \<and> s_iteration s \<le> n))
        \<longrightarrow> s_iteration s \<le> s_iteration s')"
proof -
  from turn_logged[OF assms] obtain s' where
    s': "findSessionById w' (q_sessionId q) = Some s'"
    and it: "s_iteration s' =
        (case Option.bind (r_state r) as_iteration of None \<Rightarrow> s_iteration s + 1 | Some n \<Rightarrow> n)"
    and rs: "sv_iteration (mr_state resp) = s_iteration s'"
    by blast
  show ?thesis
    apply (rule exI[of _ s'])
    using s' it rs by auto
qed

theorem iteration_after_turn_witness:
  "\<not> isl (fst (sessionMessage (sampleEnv (HttpOk (Some bareReply))) sampleWorld (sampleMessage [])))
   \<and> findSessionById sampleWorld ''s1'' = Some sampleSession
   \<and> s_iteration sampleSession = 5
   \<and> Option.bind (r_state bareReply) as_iteration = None
   \<and> (\<exists>s'. findSessionById
              (snd (sessionMessage (sampleEnv (HttpOk (Some bareReply))) sampleWorld
                      (sampleMessage []))) ''s1'' = Some s'
          \<and> s_iteration s' = 6)"
proof -
  let ?run = "sessionMessage (sampleEnv (HttpOk (Some bareReply))) sampleWorld (sampleMessage [])"
  let ?q = "agentPayload ''u1'' sampleSession ''Looks good'' (s_context sampleSession)"
  have ok: "\<not> isl (fst ?run)"
    by (simp add: sample_defs message_defs bareReply_def Let_def)
  then have run: "?run = (Inr (projr (fst ?run)), snd ?run)"
    by (metis prod.collapse sum.collapse(2))
  have log: "agentLog (snd ?run) = agentLog sampleWorld @ [(?q, HttpOk (Some bareReply))]"
    by (simp add: sample_defs message_defs bareReply_def Let_def)
  have prior: "findSessionById sampleWorld (q_sessionId ?q) = Some sampleSession"
    by (simp add: sample_defs message_defs)
  have sid: "q_sessionId ?q = ''s1''"
    by (simp add: agentPayload_def sampleSession_def)
  have facts: "Option.bind (r_state bareReply) as_iteration = None"
    "s_iteration sampleSession = 5"
    by (simp_all add: bareReply_def sampleSession_def)
  from iteration_after_turn[OF run log prior] ok prior facts show ?thesis
    unfolding sid by auto
qed



section \<open>Finalized sessions\<close>







section \<open>The guard on inactive sessions\<close>

text \<open>
  C7. A message request that names a session whose \<open>sessionActive\<close> is false is rejected
  and leaves the store as it was: nothing is appended to the transcript, the agent is not
  called, the session is not updated. The rejection does not depend on the environment,
  so repeating the request, at any time and whatever the agent would answer, is rejected
  in the same way. When the request passes the checks that precede the guard (an
  authenticated owner, a non-blank session id and message, no foreign user id in the
  body), the error is the 409 conflict of the guard.
\<close>

theorem inactive_session_rejects:
  assumes "getProp ''sessionId'' (body req) = Some (JStr sid)"
    and "findSessionById w sid = Some s"
    and "\<not> s_sessionActive s"
  shows "isl (fst (sessionMessage e w req))
       \<and> snd (sessionMessage e w req) = w
       \<and> (\<forall>e'. sessionMessage e' (snd (sessionMessage e w req)) req = sessionMessage e w req)
       \<and> (authenticated req = Some (s_userId s) \<and> trim sid \<noteq> []
            \<and> nonBlank (getProp ''message'' (body req)) \<noteq> None
            \<and> (getProp ''userId'' (body req) = None
                 \<or> getProp ''userId'' (body req) = Some (JStr (s_userId s)))
          \<longrightarrow> fst (sessionMessage e w req)
                = Inl (ApiError 409
                        [S ''Session '', Q sid,
                         S '' is finalized and cannot accept new messages.''] NoDetails))"
proof -
  from validateMessage_inactive(1)[OF assms] obtain err where
    v: "validateMessage w req = Inl err" by (cases "validateMessage w req") auto
  then have run: "\<And>e'. sessionMessage e' w req = (Inl err, w)"
    by (simp add: sessionMessage_def)
  have "authenticated req = Some (s_userId s) \<and> trim sid \<noteq> []
            \<and> nonBlank (getProp ''message'' (body req)) \<noteq> None
            \<and> (getProp ''userId'' (body req) = None
                 \<or> getProp ''userId'' (body req) = Some (JStr (s_userId s)))
          \<longrightarrow> err = sessionFinalized sid"
    using validateMessage_inactive(2)[OF assms] v by auto
  then show ?thesis
    using run by (simp add: sessionFinalized_def)
qed

theorem inactive_session_rejects_witness:
  "getProp ''sessionId'' (body (sampleMessage [])) = Some (JStr ''s1'')
   \<and> map_option s_sessionActive (findSessionById closedWorld ''s1'') = Some False
   \<and> sessionMessage (sampleEnv (HttpOk (Some saveReply))) closedWorld (sampleMessage [])
       = (Inl (ApiError 409
                 [S ''Session '', Q ''s1'', S '' is finalized and cannot accept new messages.'']
                 NoDetails),
          closedWorld)"
proof -
  let ?closed = "sampleSession\<lparr>s_state := ''finalized'', s_sessionActive := False\<rparr>"
  have a: "getProp ''sessionId'' (body (sampleMessage [])) = Some (JStr ''s1'')"
    by (simp add: sampleMessage_def getProp_def)
  have b: "findSessionById closedWorld ''s1'' = Some ?closed"
    by (simp add: sample_defs message_defs)
  have c: "\<not> s_sessionActive ?closed" by simp
  have d: "authenticated (sampleMessage []) = Some (s_userId ?closed)"
    "trim ''s1'' \<noteq> []"
    "nonBlank (getProp ''message'' (body (sampleMessage []))) \<noteq> None"
    "getProp ''userId'' (body (sampleMessage [])) = None"
    by (simp_all add: sample_defs message_defs)
  from inactive_session_rejects[OF a b c, of "sampleEnv (HttpOk (Some saveReply))"] a b d
  show ?thesis
    by (simp add: prod_eq_iff)
qed



section \<open>A failed agent call\<close>

text \<open>
  C10. When the call of the external agent fails (the network fails, the response is not
  a success, or its body is not JSON), the request ends in an error that carries the
  status of the response, or 503. The user's message, and nothing else, has been appended
  to the transcript; no goal preview is written; the session named in the request keeps
  its state, iteration, goalPreviewId, sessionActive and context (only its \<open>updatedAt\<close>
  was touched by the append); every other session is as before. The failed call is the
  exchange that the turn added to the record of agent exchanges.
\<close>

theorem failed_agent_call_keeps_state:
  assumes "sessionMessage e w req = (res, w')"
    and "agentLog w' = agentLog w @ [(q, answer)]"
    and "agentCallFailed answer"
  shows "isl res
       \<and> statusOf (projl res) = (case answer of HttpError st txt \<Rightarrow> st | _ \<Rightarrow> 503)
       \<and> (\<exists>s. findSessionById w (q_sessionId q) = Some s
              \<and> findSessionById w' (q_sessionId q) = Some (s\<lparr>s_updatedAt := now e\<rparr>)
              \<and> chatMessages w' = chatMessages w @
                   [\<lparr>cm_chatId = s_chatId s, cm_sessionId = q_sessionId q,
                     cm_sender = User, cm_message = q_message q,
                     cm_createdAt = now e\<rparr>])
       \<and> goalPreviews w' = goalPreviews w
       \<and> (\<forall>k. k \<noteq> q_sessionId q \<longrightarrow> sessions w' k = sessions w k)"
proof -
  from failed_turn[OF assms] obtain s d c where
    s: "findSessionById w (q_sessionId q) = Some s"
    and d: "sessions w (q_sessionId q) = Some d"
    and r: "isl res"
       "statusOf (projl res) = (case answer of HttpError st txt \<Rightarrow> st | _ \<Rightarrow> 503)"
    and w': "w' = w\<lparr>chatMessages := chatMessages w @
                 [\<lparr>cm_chatId = s_chatId s, cm_sessionId = q_sessionId q,
                   cm_sender = User, cm_message = q_message q,
                   cm_createdAt = now e\<rparr>],
               chats := (chats w)(s_chatId s \<mapsto> c\<lparr>c_updatedAt := now e\<rparr>),
               sessions := (sessions w)(q_sessionId q \<mapsto> d\<lparr>s_updatedAt := now e\<rparr>),
               agentLog := agentLog w @ [(q, answer)]\<rparr>"
    by blast
  have "findSessionById w' (q_sessionId q) = Some (s\<lparr>s_updatedAt := now e\<rparr>)"
    using s d unfolding w' by (auto simp: findSessionById_def mapSession_updatedAt)
  then show ?thesis
    using s r unfolding w' by auto
qed

theorem failed_agent_call_keeps_state_witness:
  "agentCallFailed (HttpError 502 ''Bad gateway'')
   \<and> fst (sessionMessage (sampleEnv (HttpError 502 ''Bad gateway'')) sampleWorld (sampleMessage []))
       = Inl (ApiError 502 [S ''Bad gateway''] NoDetails)
   \<and> findSessionById
        (snd (sessionMessage (sampleEnv (HttpError 502 ''Bad gateway'')) sampleWorld
                (sampleMessage []))) ''s1''
       = Some (sampleSession\<lparr>s_updatedAt := ''2025-11-10T09:00:00.000Z''\<rparr>)
   \<and> chatMessages
        (snd (sessionMessage (sampleEnv (HttpError 502 ''Bad gateway'')) sampleWorld
                (sampleMessage [])))
       = [\<lparr>cm_chatId = ''c1'', cm_sessionId = ''s1'', cm_sender = User,
           cm_message = ''Looks good'', cm_createdAt = ''2025-11-10T09:00:00.000Z''\<rparr>]
   \<and> goalPreviews
        (snd (sessionMessage (sampleEnv (HttpError 502 ''Bad gateway'')) sampleWorld
                (sampleMessage [])))
       = goalPreviews sampleWorld"
proof -
  let ?e = "sampleEnv (HttpError 502 ''Bad gateway'')"
  let ?run = "sessionMessage ?e sampleWorld (sampleMessage [])"
  let ?q = "agentPayload ''u1'' sampleSession ''Looks good'' (s_context sampleSession)"
  have run: "?run = (fst ?run, snd ?run)" by simp
  have log: "agentLog (snd ?run) = agentLog sampleWorld @ [(?q, HttpError 502 ''Bad gateway'')]"
    by (simp add: sample_defs message_defs Let_def)
  have f: "agentCallFailed (HttpError 502 ''Bad gateway'')" by simp
  have res: "fst ?run = Inl (ApiError 502 [S ''Bad gateway''] NoDetails)"
    by (simp add: sample_defs message_defs Let_def)
  have prior: "findSessionById sampleWorld ''s1'' = Some sampleSession"
    by (simp add: sample_defs message_defs)
  have q: "q_sessionId ?q = ''s1''" "q_message ?q = ''Looks good''"
    "s_chatId sampleSession = ''c1''" "now ?e = ''2025-11-10T09:00:00.000Z''"
    "chatMessages sampleWorld = []"
    by (simp_all add: agentPayload_def sample_defs)
  from failed_agent_call_keeps_state[OF run log f] prior res f show ?thesis
    by (auto simp: q)
qed



section \<open>The context builder\<close>

text \<open>
  C8. The hours left that the context builder reports are the user's weekly budget minus
  the sum of \<open>minHoursPerWeek\<close> over the user's active goals, or 0 when that difference is
  negative; they are never negative.
\<close>

theorem available_hours_left:
  "availableHoursLeft (buildUserContext e w usr)
     = max 0 (u_availableHoursPerWeek usr
              - sum_list (map g_minHoursPerWeek (activeGoalsOf w (u_id usr))))
   \<and> 0 \<le> availableHoursLeft (buildUserContext e w usr)"
  by (simp add: buildUserContext_def Let_def sumActiveGoalHours_all)

theorem available_hours_left_witness:
  "sum_list (map g_minHoursPerWeek (activeGoalsOf sampleWorld ''u1'')) = 10
   \<and> availableHoursLeft (buildUserContext (sampleEnv NetworkFailure) sampleWorld (sampleUser 20)) = 10
   \<and> availableHoursLeft (buildUserContext (sampleEnv NetworkFailure) sampleWorld (sampleUser 4)) = 0"
proof -
  have s: "sum_list (map g_minHoursPerWeek (activeGoalsOf sampleWorld ''u1'')) = 10"
    by (simp add: activeGoalsOf_def sampleWorld_def)
  have u: "u_id (sampleUser 20) = ''u1''" "u_id (sampleUser 4) = ''u1''"
    "u_availableHoursPerWeek (sampleUser 20) = 20" "u_availableHoursPerWeek (sampleUser 4) = 4"
    by (simp_all add: sampleUser_def)
  from available_hours_left[of "sampleEnv NetworkFailure" sampleWorld "sampleUser 20"]
       available_hours_left[of "sampleEnv NetworkFailure" sampleWorld "sampleUser 4"]
  show ?thesis by (simp add: s u)
qed







section \<open>The hour budget\<close>

text \<open>
  C1. A goal creation that reaches the budget check (an authenticated user who exists,
  a body that passes the asserts) fails if and only if the hours of the user's active
  goals plus the hours of the new goal exceed the user's weekly budget; the error is a
  409 whose details carry the budget, the offending total and the summaries (goalId,
  title, weeklyHours) of the active goals. An update of the weekly budget that reaches
  the check (a number from 0 to 168, the other fields of the body valid) fails in the
  same way if and only if the new value is below the hours of the active goals. Whenever
  either handler fails, for whatever reason, the store is as it was.
\<close>

theorem budget_check:
  "(authenticated req = Some uid \<and> findUserById w uid = Some usr
      \<and> validateGoalBody req = Inr input
    \<longrightarrow> (u_availableHoursPerWeek usr < activeHours w uid + cg_minHoursPerWeek input
           \<longrightarrow> (\<exists>msg. postGoals e w req =
                   (Inl (ApiError 409 msg
                          (BudgetDetails (u_availableHoursPerWeek usr)
                             (activeHours w uid + cg_minHoursPerWeek input)
                             (map summaryOf (activeGoalsOf w uid)))), w)))
        \<and> (\<not> u_availableHoursPerWeek usr < activeHours w uid + cg_minHoursPerWeek input
           \<longrightarrow> \<not> isl (fst (postGoals e w req))))
   \<and> (isl (fst (postGoals e w req)) \<longrightarrow> snd (postGoals e w req) = w)
   \<and> (authenticated req = Some uid \<and> findUserById w uid = Some usr
      \<and> \<not> isl (optionalTitle [S ''Invalid name.''] (getProp ''name'' (body req)))
      \<and> \<not> isl (optionalTitle [S ''Invalid timezone format.''] (getProp ''timezone'' (body req)))
      \<and> \<not> isl (optionalText [S ''profileImageUrl must be a string or null.'']
                   (getProp ''profileImageUrl'' (body req)))
      \<and> getProp ''availableHoursPerWeek'' (body req) = Some (JNum h) \<and> 0 \<le> h \<and> h \<le> 168
    \<longrightarrow> (h < activeHours w uid
           \<longrightarrow> (\<exists>msg. patchMe e w req =
                   (Inl (ApiError 409 msg
                          (BudgetDetails h (activeHours w uid)
                             (map summaryOf (activeGoalsOf w uid)))), w)))
        \<and> (\<not> h < activeHours w uid
           \<longrightarrow> \<not> isl (fst (patchMe e w req))
               \<and> map_option u_availableHoursPerWeek (users (snd (patchMe e w req)) uid) = Some h))
   \<and> (isl (fst (patchMe e w req)) \<longrightarrow> snd (patchMe e w req) = w)"
proof (intro conjI impI)
  assume a: "authenticated req = Some uid \<and> findUserById w uid = Some usr
      \<and> validateGoalBody req = Inr input"
  then have p: "postGoals e w req =
     (if activeHours w uid + cg_minHoursPerWeek input > u_availableHoursPerWeek usr
      then (Inl (goalBudgetExceeded w usr uid (activeHours w uid + cg_minHoursPerWeek input)), w)
      else (Inr (201, fst (createGoal e w (input\<lparr>cg_userId := uid\<rparr>))),
            snd (createGoal e w (input\<lparr>cg_userId := uid\<rparr>))))"
    using postGoals_checked by blast
  {
    assume "u_availableHoursPerWeek usr < activeHours w uid + cg_minHoursPerWeek input"
    then show "\<exists>msg. postGoals e w req =
                   (Inl (ApiError 409 msg
                          (BudgetDetails (u_availableHoursPerWeek usr)
                             (activeHours w uid + cg_minHoursPerWeek input)
                             (map summaryOf (activeGoalsOf w uid)))), w)"
      using p by (simp add: goalBudgetExceeded_def collectActiveGoalSummaries_all)
  }
  {
    assume "\<not> u_availableHoursPerWeek usr < activeHours w uid + cg_minHoursPerWeek input"
    then show "\<not> isl (fst (postGoals e w req))"
      using p by simp
  }
next
  assume "isl (fst (postGoals e w req))"
  then show "snd (postGoals e w req) = w" by (rule postGoals_failure_keeps_store)
next
  assume a: "authenticated req = Some uid \<and> findUserById w uid = Some usr
      \<and> \<not> isl (optionalTitle [S ''Invalid name.''] (getProp ''name'' (body req)))
      \<and> \<not> isl (optionalTitle [S ''Invalid timezone format.''] (getProp ''timezone'' (body req)))
      \<and> \<not> isl (optionalText [S ''profileImageUrl must be a string or null.'']
                   (getProp ''profileImageUrl'' (body req)))
      \<and> getProp ''availableHoursPerWeek'' (body req) = Some (JNum h) \<and> 0 \<le> h \<and> h \<le> 168"
  then have pm: "patchMe e w req =
      (case validateMeBody w uid req of
        Inl err \<Rightarrow> (Inl err, w)
      | Inr updates \<Rightarrow> updateUser e w uid updates)"
    by (simp add: patchMe_def)
  {
    assume "h < activeHours w uid"
    then have "validateMeBody w uid req = Inl (meBudgetExceeded w uid h (activeHours w uid))"
      using validateMeBody_hours(1)[of req h w uid] a by blast
    then show "\<exists>msg. patchMe e w req =
                   (Inl (ApiError 409 msg
                          (BudgetDetails h (activeHours w uid)
                             (map summaryOf (activeGoalsOf w uid)))), w)"
      using pm by (simp add: meBudgetExceeded_def collectActiveGoalSummaries_all)
  }
  {
    assume "\<not> h < activeHours w uid"
    then obtain updates where u: "validateMeBody w uid req = Inr updates"
      "uu_availableHoursPerWeek updates = Some h"
      using validateMeBody_hours(2)[of req h w uid] a by blast
    from a findUserById_Some obtain d where d: "users w uid = Some d" by blast
    have both: "\<not> isl (fst (patchMe e w req))
               \<and> map_option u_availableHoursPerWeek (users (snd (patchMe e w req)) uid) = Some h"
      using pm u d by (simp add: updateUser_def Let_def)
    show "\<not> isl (fst (patchMe e w req))" using both by blast
    show "map_option u_availableHoursPerWeek (users (snd (patchMe e w req)) uid) = Some h"
      using both by blast
  }
next
  assume "isl (fst (patchMe e w req))"
  then show "snd (patchMe e w req) = w" by (rule patchMe_failure_keeps_store)
qed

theorem budget_check_witness:
  "activeHours sampleWorld ''u1'' = 10
   \<and> map_option u_availableHoursPerWeek (findUserById sampleWorld ''u1'') = Some 20
   \<and> (\<exists>msg. postGoals (sampleEnv NetworkFailure) sampleWorld (goalRequest 15) =
         (Inl (ApiError 409 msg
                (BudgetDetails 20 25
                   [\<lparr>gs_goalId = ''g1'', gs_title = ''Portfolio'', gs_weeklyHours = 10\<rparr>])),
          sampleWorld))
   \<and> \<not> isl (fst (postGoals (sampleEnv NetworkFailure) sampleWorld (goalRequest 10)))
   \<and> (\<exists>msg. patchMe (sampleEnv NetworkFailure) sampleWorld (meRequest 8) =
         (Inl (ApiError 409 msg
                (BudgetDetails 8 10
                   [\<lparr>gs_goalId = ''g1'', gs_title = ''Portfolio'', gs_weeklyHours = 10\<rparr>])),
          sampleWorld))
   \<and> \<not> isl (fst (patchMe (sampleEnv NetworkFailure) sampleWorld (meRequest 10)))"
proof -
  let ?e = "sampleEnv NetworkFailure"
  let ?usr = "the (findUserById sampleWorld ''u1'')"
  have ah: "activeHours sampleWorld ''u1'' = 10"
    by (simp add: activeHours_def activeGoalsOf_def sampleWorld_def)
  have ag: "map summaryOf (activeGoalsOf sampleWorld ''u1'')
            = [\<lparr>gs_goalId = ''g1'', gs_title = ''Portfolio'', gs_weeklyHours = 10\<rparr>]"
    by (simp add: summaryOf_def activeGoalsOf_def sampleWorld_def)
  have usr: "findUserById sampleWorld ''u1'' = Some ?usr" "u_availableHoursPerWeek ?usr = 20"
    by (simp_all add: findUserById_def mapUser_def sampleWorld_def)
  have auth: "\<And>x. authenticated (goalRequest x) = Some ''u1''"
    "\<And>x. authenticated (meRequest x) = Some ''u1''"
    by (simp_all add: authenticated_def goalRequest_def meRequest_def)
  have v: "\<And>x. 0 \<le> x \<Longrightarrow> \<exists>input. validateGoalBody (goalRequest x) = Inr input
                                 \<and> cg_minHoursPerWeek input = x"
    by (simp add: validateGoalBody_def goalRequest_def nonBlank_def asString_def asFinite_def
          getProp_def trim_def isWhitespace_def isInteger_def)
  from v[of 15] obtain i15 where i15: "validateGoalBody (goalRequest 15) = Inr i15"
    "cg_minHoursPerWeek i15 = 15" by auto
  from v[of 10] obtain i10 where i10: "validateGoalBody (goalRequest 10) = Inr i10"
    "cg_minHoursPerWeek i10 = 10" by auto
  have m: "\<And>x. \<not> isl (optionalTitle [S ''Invalid name.''] (getProp ''name'' (body (meRequest x))))"
    "\<And>x. \<not> isl (optionalTitle [S ''Invalid timezone format.'']
                    (getProp ''timezone'' (body (meRequest x))))"
    "\<And>x. \<not> isl (optionalText [S ''profileImageUrl must be a string or null.'']
                   (getProp ''profileImageUrl'' (body (meRequest x))))"
    "\<And>x. getProp ''availableHoursPerWeek'' (body (meRequest x)) = Some (JNum x)"
    by (simp_all add: optionalTitle_def optionalText_def getProp_def meRequest_def)
  note g15 = budget_check[where req = "goalRequest 15" and uid = "''u1''" and w = sampleWorld
      and usr = ?usr and input = i15 and e = ?e and h = 0]
  note g10 = budget_check[where req = "goalRequest 10" and uid = "''u1''" and w = sampleWorld
      and usr = ?usr and input = i10 and e = ?e and h = 0]
  note m8 = budget_check[where req = "meRequest 8" and uid = "''u1''" and w = sampleWorld
      and usr = ?usr and input = i15 and e = ?e and h = 8]
  note m10 = budget_check[where req = "meRequest 10" and uid = "''u1''" and w = sampleWorld
      and usr = ?usr and input = i15 and e = ?e and h = 10]
  have a: "\<exists>msg. postGoals ?e sampleWorld (goalRequest 15) =
         (Inl (ApiError 409 msg
                (BudgetDetails 20 25
                   [\<lparr>gs_goalId = ''g1'', gs_title = ''Portfolio'', gs_weeklyHours = 10\<rparr>])),
          sampleWorld)"
    using g15 auth usr i15 ah ag by simp
  have b: "\<not> isl (fst (postGoals ?e sampleWorld (goalRequest 10)))"
    using g10 auth usr i10 ah by simp
  have c: "\<exists>msg. patchMe ?e sampleWorld (meRequest 8) =
         (Inl (ApiError 409 msg
                (BudgetDetails 8 10
                   [\<lparr>gs_goalId = ''g1'', gs_title = ''Portfolio'', gs_weeklyHours = 10\<rparr>])),
          sampleWorld)"
    using m8 auth usr m ah ag by simp
  have d: "\<not> isl (fst (patchMe ?e sampleWorld (meRequest 10)))"
    using m10 auth usr m ah by simp
  have av: "map_option u_availableHoursPerWeek (findUserById sampleWorld ''u1'') = Some 20"
    by (simp add: findUserById_def mapUser_def sampleWorld_def)
  from a b c d ah av show ?thesis by blast
qed



section \<open>The date conflict of tasks\<close>

text \<open>
  C2. A task creation that reaches the conflict check (an authenticated user who owns
  the milestone, a body that passes the asserts) fails if and only if some task of the
  same milestone and the same user already has the date; the error is a 409 whose details
  carry the ids of the colliding tasks, and the store is as it was; otherwise the task is
  written. A task update whose body carries a date and reaches the check fails in the
  same way if and only if some task of the milestone and the user other than the task
  being updated, which is left out by its id, has the new date; without such a task the
  update can fail only with a 400 of the asserts that follow, and is written with the new
  date when they pass.
\<close>

theorem task_date_conflict:
  "(authenticated req = Some uid \<and> assertOwnedMilestone w (param req) uid = Inr m
      \<and> validateTaskBody e req = Inr input
    \<longrightarrow> (colliding w (m_id m) uid (ct_date input) None \<noteq> []
           \<longrightarrow> (\<exists>msg. postTask e w req =
                   (Inl (ApiError 409 msg
                          (ConflictDetails
                             (map t_id (colliding w (m_id m) uid (ct_date input) None)))), w)))
        \<and> (colliding w (m_id m) uid (ct_date input) None = []
           \<longrightarrow> (\<exists>new. postTask e w req = (Inr (201, new), w\<lparr>tasks := tasks w @ [new]\<rparr>)
                      \<and> t_milestoneId new = m_id m \<and> t_userId new = uid
                      \<and> t_date new = ct_date input)))
   \<and> (authenticated req = Some uid \<and> assertOwnedTask w (param req) uid = Inr (t, m)
      \<and> \<not> isl (optionalTitle [S ''Invalid title.''] (getProp ''title'' (body req)))
      \<and> \<not> isl (optionalText [S ''description must be a string or null.'']
                   (getProp ''description'' (body req)))
      \<and> getProp ''date'' (body req) = Some v \<and> validateIsoDate e (Some v) = Inr d
    \<longrightarrow> (colliding w (m_id m) uid d (Some (t_id t)) \<noteq> []
           \<longrightarrow> (\<exists>msg. patchTask e w req =
                   (Inl (ApiError 409 msg
                          (ConflictDetails
                             (map t_id (colliding w (m_id m) uid d (Some (t_id t)))))), w)))
        \<and> (colliding w (m_id m) uid d (Some (t_id t)) = []
           \<longrightarrow> (\<forall>err. fst (patchTask e w req) = Inl err \<longrightarrow> statusOf err = 400)
               \<and> (\<not> isl (validateTaskRest req)
                    \<longrightarrow> (\<exists>t'. fst (patchTask e w req) = Inr t' \<and> t_date t' = d
                              \<and> getTaskById (snd (patchTask e w req)) (t_id t) = Some t'))))"
proof (intro conjI impI allI)
  assume a: "authenticated req = Some uid \<and> assertOwnedMilestone w (param req) uid = Inr m
      \<and> validateTaskBody e req = Inr input"
  note p = postTask_checked[of req uid w m e input]
  {
    assume "colliding w (m_id m) uid (ct_date input) None \<noteq> []"
    then show "\<exists>msg. postTask e w req =
                   (Inl (ApiError 409 msg
                          (ConflictDetails
                             (map t_id (colliding w (m_id m) uid (ct_date input) None)))), w)"
      using p a by simp
  }
  {
    assume "colliding w (m_id m) uid (ct_date input) None = []"
    then show "\<exists>new. postTask e w req = (Inr (201, new), w\<lparr>tasks := tasks w @ [new]\<rparr>)
                      \<and> t_milestoneId new = m_id m \<and> t_userId new = uid
                      \<and> t_date new = ct_date input"
      using p a by (simp add: createTask_def Let_def)
  }
next
  assume a: "authenticated req = Some uid \<and> assertOwnedTask w (param req) uid = Inr (t, m)
      \<and> \<not> isl (optionalTitle [S ''Invalid title.''] (getProp ''title'' (body req)))
      \<and> \<not> isl (optionalText [S ''description must be a string or null.'']
                   (getProp ''description'' (body req)))
      \<and> getProp ''date'' (body req) = Some v \<and> validateIsoDate e (Some v) = Inr d"
  then have pt: "patchTask e w req =
      (case validateTaskPatch e w uid t m req of
        Inl err \<Rightarrow> (Inl err, w)
      | Inr updates \<Rightarrow> updateTask e w (t_id t) updates)"
    by (simp add: patchTask_def)
  from a have vt: "\<not> isl (optionalTitle [S ''Invalid title.''] (getProp ''title'' (body req)))"
    "\<not> isl (optionalText [S ''description must be a string or null.'']
                   (getProp ''description'' (body req)))"
    "getProp ''date'' (body req) = Some v" "validateIsoDate e (Some v) = Inr d"
    by simp_all
  note V = validateTaskPatch_date[OF vt, of w m uid t]
  have g: "getTaskById w (t_id t) = Some t"
    using a assertOwnedTask_Inr[of w "param req" uid t m] by auto
  {
    assume "colliding w (m_id m) uid d (Some (t_id t)) \<noteq> []"
    then show "\<exists>msg. patchTask e w req =
                   (Inl (ApiError 409 msg
                          (ConflictDetails
                             (map t_id (colliding w (m_id m) uid d (Some (t_id t)))))), w)"
      using pt V(1) by simp
  }
  {
    fix err
    assume c: "colliding w (m_id m) uid d (Some (t_id t)) = []"
      and f: "fst (patchTask e w req) = Inl err"
    show "statusOf err = 400"
    proof (cases "validateTaskRest req")
      case (Inl err')
      then show ?thesis
        using pt V(2)[OF c Inl] f validateTaskRest_status[OF Inl] by simp
    next
      case (Inr rest)
      from V(3)[OF c Inr] obtain updates where
        u: "validateTaskPatch e w uid t m req = Inr updates" "ut_date updates = Some d" by blast
      from updateTask_date[OF g u(2), of e] pt u(1) f show ?thesis by auto
    qed
  }
  {
    assume c: "colliding w (m_id m) uid d (Some (t_id t)) = []"
      and r: "\<not> isl (validateTaskRest req)"
    then obtain rest where rest: "validateTaskRest req = Inr rest"
      by (cases "validateTaskRest req") auto
    from V(3)[OF c rest] obtain updates where
      u: "validateTaskPatch e w uid t m req = Inr updates" "ut_date updates = Some d" by blast
    from updateTask_date[OF g u(2), of e] pt u(1)
    show "\<exists>t'. fst (patchTask e w req) = Inr t' \<and> t_date t' = d
                              \<and> getTaskById (snd (patchTask e w req)) (t_id t) = Some t'"
      by auto
  }
qed



theorem task_date_conflict_witness:
  "(\<exists>msg. postTask (sampleEnv NetworkFailure) sampleWorld (taskRequest ''2025-11-17'') =
         (Inl (ApiError 409 msg (ConflictDetails [''t1''])), sampleWorld))
   \<and> (\<exists>new. postTask (sampleEnv NetworkFailure) sampleWorld (taskRequest ''2025-11-19'') =
         (Inr (201, new), sampleWorld\<lparr>tasks := tasks sampleWorld @ [new]\<rparr>)
         \<and> t_date new = 20411)
   \<and> (\<exists>msg. patchTask (sampleEnv NetworkFailure) sampleWorld
                (taskDatePatch ''t2'' ''2025-11-17'') =
         (Inl (ApiError 409 msg (ConflictDetails [''t1''])), sampleWorld))
   \<and> (\<exists>t'. fst (patchTask (sampleEnv NetworkFailure) sampleWorld
                    (taskDatePatch ''t1'' ''2025-11-17'')) = Inr t'
           \<and> t_date t' = 20409)"
proof -
  let ?e = "sampleEnv NetworkFailure"
  let ?m = "the (milestones sampleWorld ''m1'')"
  let ?t1 = "tasks sampleWorld ! 0"
  let ?t2 = "tasks sampleWorld ! 1"
  have auth: "\<And>x. authenticated (taskRequest x) = Some ''u1''"
    "\<And>i x. authenticated (taskDatePatch i x) = Some ''u1''"
    by (simp_all add: authenticated_def taskRequest_def taskDatePatch_def)
  have own: "\<And>x. assertOwnedMilestone sampleWorld (param (taskRequest x)) ''u1'' = Inr ?m"
    "m_id ?m = ''m1''"
    by (simp_all add: assertOwnedMilestone_def assertOwnedGoal_def getMilestoneById_def
          getGoalById_def bindE_def taskRequest_def sampleWorld_def)
  have ownt: "assertOwnedTask sampleWorld (param (taskDatePatch ''t1'' ''2025-11-17'')) ''u1''
               = Inr (?t1, ?m)"
    "assertOwnedTask sampleWorld (param (taskDatePatch ''t2'' ''2025-11-17'')) ''u1''
               = Inr (?t2, ?m)"
    "t_id ?t1 = ''t1''" "t_id ?t2 = ''t2''"
    by (simp_all add: assertOwnedTask_def assertOwnedMilestone_def assertOwnedGoal_def
          getMilestoneById_def getGoalById_def getTaskById_def bindE_def taskDatePatch_def
          sampleWorld_def)
  have v: "\<exists>input. validateTaskBody ?e (taskRequest ''2025-11-17'') = Inr input
                  \<and> ct_date input = 20409"
    "\<exists>input. validateTaskBody ?e (taskRequest ''2025-11-19'') = Inr input
                  \<and> ct_date input = 20411"
    by (simp_all add: validateTaskBody_def validateIsoDate_def validateEstimatedHours_def
          optionalText_def bindE_def taskRequest_def nonBlank_def asString_def asFinite_def
          getProp_def trim_def isWhitespace_def sampleEnv_def)
  from v obtain i17 i19 where
    i17: "validateTaskBody ?e (taskRequest ''2025-11-17'') = Inr i17" "ct_date i17 = 20409"
    and i19: "validateTaskBody ?e (taskRequest ''2025-11-19'') = Inr i19" "ct_date i19 = 20411"
    by blast
  have col: "colliding sampleWorld ''m1'' ''u1'' 20409 None = [?t1]"
    "colliding sampleWorld ''m1'' ''u1'' 20411 None = []"
    "colliding sampleWorld ''m1'' ''u1'' 20409 (Some ''t2'') = [?t1]"
    "colliding sampleWorld ''m1'' ''u1'' 20409 (Some ''t1'') = []"
    by (simp_all add: colliding_def sampleWorld_def)
  have p: "\<And>i. \<not> isl (optionalTitle [S ''Invalid title.'']
                       (getProp ''title'' (body (taskDatePatch i ''2025-11-17''))))"
    "\<And>i. \<not> isl (optionalText [S ''description must be a string or null.'']
                   (getProp ''description'' (body (taskDatePatch i ''2025-11-17''))))"
    "\<And>i. getProp ''date'' (body (taskDatePatch i ''2025-11-17'')) = Some (JStr ''2025-11-17'')"
    "validateIsoDate ?e (Some (JStr ''2025-11-17'')) = Inr 20409"
    "\<And>i. \<not> isl (validateTaskRest (taskDatePatch i ''2025-11-17''))"
    by (simp_all add: optionalTitle_def optionalText_def validateIsoDate_def validateTaskRest_def
          bindE_def taskDatePatch_def nonBlank_def asString_def getProp_def trim_def
          isWhitespace_def sampleEnv_def)
  note c17 = task_date_conflict[where req = "taskRequest ''2025-11-17''" and uid = "''u1''"
      and w = sampleWorld and m = ?m and e = ?e and input = i17 and t = ?t1
      and v = "JStr ''2025-11-17''" and d = 20409]
  note c19 = task_date_conflict[where req = "taskRequest ''2025-11-19''" and uid = "''u1''"
      and w = sampleWorld and m = ?m and e = ?e and input = i19 and t = ?t1
      and v = "JStr ''2025-11-17''" and d = 20409]
  note p2 = task_date_conflict[where req = "taskDatePatch ''t2'' ''2025-11-17''"
      and uid = "''u1''" and w = sampleWorld and m = ?m and e = ?e and input = i17 and t = ?t2
      and v = "JStr ''2025-11-17''" and d = 20409]
  note p1 = task_date_conflict[where req = "taskDatePatch ''t1'' ''2025-11-17''"
      and uid = "''u1''" and w = sampleWorld and m = ?m and e = ?e and input = i17 and t = ?t1
      and v = "JStr ''2025-11-17''" and d = 20409]
  have t1: "map t_id [?t1] = [''t1'']" using ownt(3) by simp
  have a: "\<exists>msg. postTask ?e sampleWorld (taskRequest ''2025-11-17'') =
         (Inl (ApiError 409 msg (ConflictDetails [''t1''])), sampleWorld)"
    using c17 auth own i17 col(1) t1 by simp
  have b: "\<exists>new. postTask ?e sampleWorld (taskRequest ''2025-11-19'') =
         (Inr (201, new), sampleWorld\<lparr>tasks := tasks sampleWorld @ [new]\<rparr>)
         \<and> t_date new = 20411"
    using c19 auth own i19 col(2) by auto
  have c: "\<exists>msg. patchTask ?e sampleWorld (taskDatePatch ''t2'' ''2025-11-17'') =
         (Inl (ApiError 409 msg (ConflictDetails [''t1''])), sampleWorld)"
    using p2 auth ownt own(2) p col(3) t1 by simp
  have d: "\<exists>t'. fst (patchTask ?e sampleWorld (taskDatePatch ''t1'' ''2025-11-17'')) = Inr t'
           \<and> t_date t' = 20409"
    using p1 auth ownt own(2) p col(4) by auto
  from a b c d show ?thesis by blast
qed


end
